theory Spec2Isabelle
  imports Complex_Main "HOL-Library.Multiset" "HOL-Library.Sublist"
begin

section \<open>Python values, exceptions and built-ins\<close>

text \<open>
  The exception classes the three modules can raise or catch. Every one of them is a
  subclass of Python's \<open>Exception\<close>; \<open>Exception m\<close> is a direct instance of the base
  class (as in \<^verbatim>\<open>raise Exception(f"Network error: ...")\<close>), \<open>ClientError\<close> is
  \<^verbatim>\<open>aiohttp.ClientError\<close>. The argument is the message, for \<open>KeyError\<close> the key.
\<close>

datatype py_error =
    ValueError string
  | KeyError string
  | IndexError string
  | AttributeError string
  | ClientError string
  | Exception string

text \<open>\<^verbatim>\<open>str(e)\<close>: the message; a \<open>KeyError\<close> prints the repr of its key, in quotes.\<close>

fun py_str :: "py_error \<Rightarrow> string" where
  "py_str (ValueError m) = m"
| "py_str (KeyError k) = [CHR 0x27] @ k @ [CHR 0x27]"
| "py_str (IndexError m) = m"
| "py_str (AttributeError m) = m"
| "py_str (ClientError m) = m"
| "py_str (Exception m) = m"

fun isinstance_ValueError :: "py_error \<Rightarrow> bool" where
  "isinstance_ValueError (ValueError m) = True"
| "isinstance_ValueError e = False"

fun isinstance_ClientError :: "py_error \<Rightarrow> bool" where
  "isinstance_ClientError (ClientError m) = True"
| "isinstance_ClientError e = False"

fun isinstance_Exception :: "py_error \<Rightarrow> bool" where
  "isinstance_Exception e = True"

text \<open>Sequencing of two computations that may raise: the first exception wins.\<close>

definition and_then :: "py_error + 'a \<Rightarrow> ('a \<Rightarrow> py_error + 'b) \<Rightarrow> py_error + 'b" where
  "and_then r f = (case r of Inl e \<Rightarrow> Inl e | Inr v \<Rightarrow> f v)"

text \<open>
  \<^verbatim>\<open>d[k]\<close> on a decoded JSON object: the field of the record holds \<open>None\<close> when the
  key is absent, and subscripting then raises \<open>KeyError\<close>. \<^verbatim>\<open>d.get(k, default)\<close>
  never raises.
\<close>

definition getitem :: "'a option \<Rightarrow> string \<Rightarrow> py_error + 'a" where
  "getitem field k = (case field of None \<Rightarrow> Inl (KeyError k) | Some v \<Rightarrow> Inr v)"

definition get_default :: "'a option \<Rightarrow> 'a \<Rightarrow> 'a" where
  "get_default field dflt = (case field of None \<Rightarrow> dflt | Some v \<Rightarrow> v)"

text \<open>\<^verbatim>\<open>xs[0]\<close>.\<close>

definition first_item :: "'a list \<Rightarrow> py_error + 'a" where
  "first_item xs = (case xs of [] \<Rightarrow> Inl (IndexError ''list index out of range'') | x # _ \<Rightarrow> Inr x)"

text \<open>
  \<^verbatim>\<open>xs[:n]\<close> for an int \<open>n\<close>: the first \<open>n\<close> elements, and for a negative \<open>n\<close> all but
  the last \<open>-n\<close>.
\<close>

definition slice_to :: "int \<Rightarrow> 'a list \<Rightarrow> 'a list" where
  "slice_to n xs = (if 0 \<le> n then take (nat n) xs else take (nat (int (length xs) + n)) xs)"

text \<open>
  \<^verbatim>\<open>[f(x) for x in xs]\<close> where \<open>f\<close> may raise: the elements are evaluated in order and
  the first exception ends the comprehension.
\<close>

fun comprehension :: "('a \<Rightarrow> py_error + 'b) \<Rightarrow> 'a list \<Rightarrow> py_error + 'b list" where
  "comprehension f [] = Inr []"
| "comprehension f (x # xs) =
     and_then (f x) (\<lambda>y. and_then (comprehension f xs) (\<lambda>ys. Inr (y # ys)))"

text \<open>
  The built-ins \<^verbatim>\<open>min(xs, key=k)\<close> and \<^verbatim>\<open>max(xs, key=k)\<close>, as CPython computes
  them: the first element is the candidate, and a later element replaces it only when
  its key is strictly smaller (greater). The key is computed once per element, in order,
  and may raise.
\<close>

fun min_loop :: "('a \<Rightarrow> py_error + 'k::linorder) \<Rightarrow> 'a \<Rightarrow> 'k \<Rightarrow> 'a list \<Rightarrow> py_error + 'a" where
  "min_loop key best kb [] = Inr best"
| "min_loop key best kb (x # xs) =
     and_then (key x) (\<lambda>k. if k < kb then min_loop key x k xs else min_loop key best kb xs)"

definition py_min :: "('a \<Rightarrow> py_error + 'k::linorder) \<Rightarrow> 'a list \<Rightarrow> py_error + 'a" where
  "py_min key xs =
     (case xs of
        [] \<Rightarrow> Inl (ValueError ''min() arg is an empty sequence'')
      | x # rest \<Rightarrow> and_then (key x) (\<lambda>k. min_loop key x k rest))"

fun max_loop :: "('a \<Rightarrow> py_error + 'k::linorder) \<Rightarrow> 'a \<Rightarrow> 'k \<Rightarrow> 'a list \<Rightarrow> py_error + 'a" where
  "max_loop key best kb [] = Inr best"
| "max_loop key best kb (x # xs) =
     and_then (key x) (\<lambda>k. if kb < k then max_loop key x k xs else max_loop key best kb xs)"

definition py_max :: "('a \<Rightarrow> py_error + 'k::linorder) \<Rightarrow> 'a list \<Rightarrow> py_error + 'a" where
  "py_max key xs =
     (case xs of
        [] \<Rightarrow> Inl (ValueError ''max() arg is an empty sequence'')
      | x # rest \<Rightarrow> and_then (key x) (\<lambda>k. max_loop key x k rest))"

text \<open>
  \<^verbatim>\<open>s.title()\<close> on ASCII text: a letter that follows a non-letter is upper-cased, a
  letter that follows a letter is lower-cased, everything else is kept. The flag is
  CPython's \<open>previous_is_cased\<close>. Bytes outside ASCII are kept as they are.
\<close>

definition is_lower :: "char \<Rightarrow> bool" where
  "is_lower c = (97 \<le> (of_char c :: nat) \<and> (of_char c :: nat) \<le> 122)"

definition is_upper :: "char \<Rightarrow> bool" where
  "is_upper c = (65 \<le> (of_char c :: nat) \<and> (of_char c :: nat) \<le> 90)"

definition to_upper :: "char \<Rightarrow> char" where
  "to_upper c = (if is_lower c then char_of ((of_char c :: nat) - 32) else c)"

definition to_lower :: "char \<Rightarrow> char" where
  "to_lower c = (if is_upper c then char_of ((of_char c :: nat) + 32) else c)"

fun title_from :: "bool \<Rightarrow> string \<Rightarrow> string" where
  "title_from previous_is_cased [] = []"
| "title_from previous_is_cased (c # cs) =
     (if is_lower c then
        (if previous_is_cased then c else to_upper c) # title_from True cs
      else if is_upper c then
        (if previous_is_cased then to_lower c else c) # title_from True cs
      else c # title_from False cs)"

definition title :: "string \<Rightarrow> string" where
  "title s = title_from False s"

section \<open>Local time\<close>

text \<open>
  \<^verbatim>\<open>datetime.fromtimestamp(t)\<close> reads the host's local time zone. The zone is the
  parameter \<open>tz\<close>: the offset from UTC, in seconds, that is in force at the instant \<open>t\<close>.
  A calendar date is the number of the local day counted from 1970-01-01 (its ISO text
  is a one-to-one rendering of that number and is left out), the hour is the hour of the
  local day. Timestamps are taken inside the years 1 to 9999 that \<open>datetime\<close> supports.
\<close>

definition local_seconds :: "(int \<Rightarrow> int) \<Rightarrow> int \<Rightarrow> int" where
  "local_seconds tz t = t + tz t"

definition fromtimestamp_date :: "(int \<Rightarrow> int) \<Rightarrow> int \<Rightarrow> int" where
  "fromtimestamp_date tz t = local_seconds tz t div 86400"

definition fromtimestamp_hour :: "(int \<Rightarrow> int) \<Rightarrow> int \<Rightarrow> int" where
  "fromtimestamp_hour tz t = (local_seconds tz t mod 86400) div 3600"

section \<open>The provider's JSON documents\<close>

text \<open>
  A decoded JSON object is a record with one optional field for every key the code
  reads: \<open>None\<close> is an absent key. Numbers are reals, the epoch timestamp is an integer.
\<close>

record main_block =
  main_temp :: "real option"
  main_feels_like :: "real option"
  main_humidity :: "real option"
  main_pressure :: "real option"

record weather_entry =
  weather_description :: "string option"

record wind_block =
  speed :: "real option"
  deg :: "real option"

record sample_base =
  dt :: "int option"
  main :: "main_block option"
  weather :: "weather_entry list option"
  wind :: "wind_block option"

text \<open>One 3-hour entry of the forecast endpoint's \<open>list\<close>.\<close>

record raw_sample = sample_base +
  pop :: "real option"

record city_block =
  city_name :: "string option"
  city_country :: "string option"

record forecast_raw =
  forecast_list :: "raw_sample list option"
  city :: "city_block option"

record sys_block =
  country :: "string option"
  sys_sunrise :: "int option"
  sys_sunset :: "int option"

text \<open>The document of the current-conditions endpoint.\<close>

record current_raw = sample_base +
  name :: "string option"
  sys :: "sys_block option"
  raw_visibility :: "real option"

section \<open>Normalised records\<close>

record conditions =
  description :: string
  humidity :: real
  wind_speed :: real

text \<open>The dictionary \<open>_aggregate_daily_forecast\<close> builds for one day.\<close>

record daily_record = conditions +
  date :: int
  temperature_min :: real
  temperature_max :: real
  precipitation_probability :: real

text \<open>
  The dictionary \<open>_format_forecast_data\<close> returns. An entry of \<open>forecasts_list\<close> (the key \<open>forecasts\<close>) is \<open>None\<close>
  for the empty dictionary \<^verbatim>\<open>{}\<close> that \<open>_aggregate_daily_forecast\<close> returns on an empty
  list.
\<close>

record forecast_data =
  forecast_location :: string
  forecasts_list :: "daily_record option list"

text \<open>The dictionary \<open>_format_current_weather\<close> returns; the three times are local seconds.\<close>

record current_weather = conditions +
  location :: string
  temperature :: real
  feels_like :: real
  pressure :: real
  wind_direction :: real
  visibility :: real
  timestamp :: int
  sunrise :: int
  sunset :: int

section \<open>WeatherService: normalisation and daily aggregation\<close>

text \<open>The subscript chains of the source, each raising at the first absent key.\<close>

definition item_dt :: "'a sample_base_scheme \<Rightarrow> py_error + int" where
  "item_dt item = getitem (dt item) ''dt''"

definition item_main_temp :: "'a sample_base_scheme \<Rightarrow> py_error + real" where
  "item_main_temp item = and_then (getitem (main item) ''main'') (\<lambda>m. getitem (main_temp m) ''temp'')"

definition item_main_feels_like :: "'a sample_base_scheme \<Rightarrow> py_error + real" where
  "item_main_feels_like item =
     and_then (getitem (main item) ''main'') (\<lambda>m. getitem (main_feels_like m) ''feels_like'')"

definition item_main_humidity :: "'a sample_base_scheme \<Rightarrow> py_error + real" where
  "item_main_humidity item =
     and_then (getitem (main item) ''main'') (\<lambda>m. getitem (main_humidity m) ''humidity'')"

definition item_main_pressure :: "'a sample_base_scheme \<Rightarrow> py_error + real" where
  "item_main_pressure item =
     and_then (getitem (main item) ''main'') (\<lambda>m. getitem (main_pressure m) ''pressure'')"

text \<open>\<^verbatim>\<open>item['weather'][0]['description'].title()\<close>\<close>

definition item_description_title :: "'a sample_base_scheme \<Rightarrow> py_error + string" where
  "item_description_title item =
     and_then (getitem (weather item) ''weather'') (\<lambda>ws.
     and_then (first_item ws) (\<lambda>w.
     and_then (getitem (weather_description w) ''description'') (\<lambda>d. Inr (title d))))"

text \<open>\<^verbatim>\<open>item.get('wind', {}).get('speed', 0)\<close> and the same for \<open>deg\<close>.\<close>

definition item_wind_speed :: "'a sample_base_scheme \<Rightarrow> real" where
  "item_wind_speed item = (case wind item of None \<Rightarrow> 0 | Some w \<Rightarrow> get_default (speed w) 0)"

definition item_wind_deg :: "'a sample_base_scheme \<Rightarrow> real" where
  "item_wind_deg item = (case wind item of None \<Rightarrow> 0 | Some w \<Rightarrow> get_default (deg w) 0)"

text \<open>The key of the noon search: \<^verbatim>\<open>abs(datetime.fromtimestamp(x['dt']).hour - 12)\<close>.\<close>

definition noon_distance :: "(int \<Rightarrow> int) \<Rightarrow> raw_sample \<Rightarrow> py_error + int" where
  "noon_distance tz x = and_then (item_dt x) (\<lambda>t. Inr \<bar>fromtimestamp_hour tz t - 12\<bar>)"

text \<open>
  \<open>_aggregate_daily_forecast\<close>. The values of the returned dictionary are evaluated in
  the order of the source: date, minimum, maximum, description, humidity, wind speed,
  precipitation probability.
\<close>

definition aggregate_daily_forecast ::
  "(int \<Rightarrow> int) \<Rightarrow> raw_sample list \<Rightarrow> py_error + daily_record option" where
  "aggregate_daily_forecast tz daily_data =
     (if daily_data = [] then Inr None
      else
        and_then (comprehension item_main_temp daily_data) (\<lambda>temps.
        and_then (py_min (noon_distance tz) daily_data) (\<lambda>noon_forecast.
        and_then (first_item daily_data) (\<lambda>first.
        and_then (item_dt first) (\<lambda>t0.
        and_then (py_min Inr temps) (\<lambda>tmin.
        and_then (py_max Inr temps) (\<lambda>tmax.
        and_then (item_description_title noon_forecast) (\<lambda>desc.
        and_then (item_main_humidity noon_forecast) (\<lambda>hum.
        Inr (Some \<lparr>description = desc,
                   humidity = hum,
                   wind_speed = item_wind_speed noon_forecast,
                   date = fromtimestamp_date tz t0,
                   temperature_min = tmin,
                   temperature_max = tmax,
                   precipitation_probability = get_default (pop noon_forecast) 0 * 100\<rparr>))))))))))"

text \<open>
  The \<^verbatim>\<open>for\<close> loop of \<open>_format_forecast_data\<close>. The state is the three local
  variables \<open>forecasts\<close>, \<open>current_date\<close> (\<open>None\<close> before the first item) and
  \<open>daily_data\<close>.
\<close>

fun forecast_loop ::
  "(int \<Rightarrow> int) \<Rightarrow> raw_sample list \<Rightarrow>
   daily_record option list \<times> int option \<times> raw_sample list \<Rightarrow>
   py_error + (daily_record option list \<times> int option \<times> raw_sample list)" where
  "forecast_loop tz [] state = Inr state"
| "forecast_loop tz (item # rest) (forecasts, current_date, daily_data) =
     and_then (item_dt item) (\<lambda>t.
       let forecast_date = fromtimestamp_date tz t in
       if current_date \<noteq> Some forecast_date then
         (if daily_data \<noteq> [] then
            and_then (aggregate_daily_forecast tz daily_data) (\<lambda>r.
              forecast_loop tz rest (forecasts @ [r], Some forecast_date, [item]))
          else forecast_loop tz rest (forecasts, Some forecast_date, [item]))
       else forecast_loop tz rest (forecasts, current_date, daily_data @ [item]))"

text \<open>
  The aggregation part of \<open>_format_forecast_data\<close>, from the sample list to the value
  stored under \<open>"forecasts"\<close>: the slice \<^verbatim>\<open>[:days * 8]\<close>, the loop, the flush of the last
  day's data and the slice \<^verbatim>\<open>forecasts[:days]\<close>.
\<close>

definition aggregate_daily ::
  "(int \<Rightarrow> int) \<Rightarrow> raw_sample list \<Rightarrow> int \<Rightarrow> py_error + daily_record option list" where
  "aggregate_daily tz samples days =
     and_then (forecast_loop tz (slice_to (days * 8) samples) ([], None, []))
       (\<lambda>(forecasts, current_date, daily_data).
          and_then
            (if daily_data \<noteq> [] then
               and_then (aggregate_daily_forecast tz daily_data) (\<lambda>r. Inr (forecasts @ [r]))
             else Inr forecasts)
            (\<lambda>forecasts. Inr (slice_to days forecasts)))"

text \<open>\<^verbatim>\<open>f"{data['city']['name']}, {data['city']['country']}"\<close>\<close>

definition city_location :: "forecast_raw \<Rightarrow> py_error + string" where
  "city_location data =
     and_then (getitem (city data) ''city'') (\<lambda>c.
     and_then (getitem (city_name c) ''name'') (\<lambda>n.
     and_then (getitem (city_country c) ''country'') (\<lambda>k. Inr (n @ '', '' @ k))))"

definition format_forecast_data ::
  "(int \<Rightarrow> int) \<Rightarrow> forecast_raw \<Rightarrow> int \<Rightarrow> py_error + forecast_data" where
  "format_forecast_data tz data days =
     and_then (getitem (forecast_list data) ''list'') (\<lambda>samples.
     and_then (aggregate_daily tz samples days) (\<lambda>fs.
     and_then (city_location data) (\<lambda>loc.
     Inr \<lparr>forecast_location = loc, forecasts_list = fs\<rparr>)))"

text \<open>
  \<open>_format_current_weather\<close>. The values are evaluated in the order of the dictionary
  display; \<^verbatim>\<open>data.get('visibility', 0) / 1000\<close> is true division.
\<close>

definition format_current_weather ::
  "(int \<Rightarrow> int) \<Rightarrow> current_raw \<Rightarrow> py_error + current_weather" where
  "format_current_weather tz data =
     and_then (getitem (name data) ''name'') (\<lambda>n.
     and_then (getitem (sys data) ''sys'') (\<lambda>s.
     and_then (getitem (country s) ''country'') (\<lambda>c.
     and_then (item_main_temp data) (\<lambda>t.
     and_then (item_main_feels_like data) (\<lambda>fl.
     and_then (item_main_humidity data) (\<lambda>hum.
     and_then (item_main_pressure data) (\<lambda>pr.
     and_then (item_description_title data) (\<lambda>desc.
     and_then (item_dt data) (\<lambda>t0.
     and_then (getitem (sys_sunrise s) ''sunrise'') (\<lambda>rise.
     and_then (getitem (sys_sunset s) ''sunset'') (\<lambda>down.
     Inr \<lparr>description = desc,
          humidity = hum,
          wind_speed = item_wind_speed data,
          location = n @ '', '' @ c,
          temperature = t,
          feels_like = fl,
          pressure = pr,
          wind_direction = item_wind_deg data,
          visibility = get_default (raw_visibility data) 0 / 1000,
          timestamp = local_seconds tz t0,
          sunrise = local_seconds tz rise,
          sunset = local_seconds tz down\<rparr>)))))))))))"

section \<open>WeatherService: the HTTP client\<close>

text \<open>
  The \<open>aiohttp.ClientSession\<close> is known to the service by its \<open>closed\<close> flag only. The
  service object holds \<open>None\<close> until the first request creates a session.
\<close>

record client_session =
  closed :: bool

record weather_service =
  api_key :: string
  base_url :: string
  session :: "client_session option"

text \<open>\<open>WeatherService.__init__\<close>\<close>

definition WeatherService :: "string \<Rightarrow> string \<Rightarrow> weather_service" where
  "WeatherService key url = \<lparr>api_key = key, base_url = url, session = None\<rparr>"

text \<open>\<open>_get_session\<close>: the service with its session created or replaced when needed.\<close>

definition get_session :: "weather_service \<Rightarrow> weather_service" where
  "get_session self =
     (case session self of
        None \<Rightarrow> self\<lparr>session := Some \<lparr>closed = False\<rparr>\<rparr>
      | Some s \<Rightarrow> if closed s then self\<lparr>session := Some \<lparr>closed = False\<rparr>\<rparr> else self)"

text \<open>
  \<open>close\<close>. The call \<^verbatim>\<open>await self.session.close()\<close> belongs to the library; its outcome
  is the parameter \<open>library_close\<close> (\<open>None\<close>: it returns, \<open>Some e\<close>: it raises \<open>e\<close>).
\<close>

definition close :: "py_error option \<Rightarrow> weather_service \<Rightarrow> py_error + weather_service" where
  "close library_close self =
     (case session self of
        None \<Rightarrow> Inr self
      | Some s \<Rightarrow>
          if \<not> closed s then
            (case library_close of
               None \<Rightarrow> Inr (self\<lparr>session := Some (s\<lparr>closed := True\<rparr>)\<rparr>)
             | Some e \<Rightarrow> Inl e)
          else Inr self)"

text \<open>
  A request is its URL and query parameters. What the network does with it is the
  environment: \<open>session.get\<close> either raises an \<open>aiohttp.ClientError\<close> or gives a response
  with a status and a body; decoding the body (\<^verbatim>\<open>await response.json()\<close>) may raise
  too. The decoded object is read under the key \<open>message\<close> by the error path and as the
  endpoint's document by the success path.
\<close>

datatype param = PStr string | PInt int

record request =
  url :: string
  params :: "(string \<times> param) list"

record 'a json_object =
  message :: "string option"
  document :: 'a

record 'a response =
  status :: int
  json :: "py_error + 'a json_object"

datatype 'a http_outcome = Get_raises string | Get_responds "'a response"

text \<open>
  The body of \<^verbatim>\<open>async with session.get(url, params=params) as response\<close> inside
  \<^verbatim>\<open>try ... except aiohttp.ClientError\<close>, shared by the two request methods:
  \<open>normalise\<close> is the formatting method of the endpoint.
\<close>

definition fetch ::
  "'a http_outcome \<Rightarrow> string \<Rightarrow> ('a \<Rightarrow> py_error + 'b) \<Rightarrow> py_error + 'b" where
  "fetch outcome location_arg normalise =
     (case
        (case outcome of
           Get_raises m \<Rightarrow> Inl (ClientError m)
         | Get_responds response \<Rightarrow>
             if status response = 200 then
               and_then (json response) (\<lambda>data. normalise (document data))
             else if status response = 404 then
               Inl (ValueError (''Location '' @ [CHR 0x27] @ location_arg @ [CHR 0x27] @ '' not found''))
             else
               and_then (json response) (\<lambda>error_data.
                 Inl (Exception (''Weather API error: '' @
                        get_default (message error_data) ''Unknown error''))))
      of
        Inl e \<Rightarrow>
          if isinstance_ClientError e then Inl (Exception (''Network error: '' @ py_str e))
          else Inl e
      | Inr v \<Rightarrow> Inr v)"

text \<open>
  \<open>WeatherService.get_current_weather\<close>: the result or the exception, the service
  after the call, and the request that was sent.
\<close>

definition service_get_current_weather ::
  "(int \<Rightarrow> int) \<Rightarrow> (request \<Rightarrow> current_raw http_outcome) \<Rightarrow> weather_service \<Rightarrow> string \<Rightarrow> string \<Rightarrow>
   (py_error + current_weather) \<times> weather_service \<times> request list" where
  "service_get_current_weather tz http self location_arg units =
     (let self' = get_session self;
          req = \<lparr>url = base_url self @ ''/weather'',
                 params = [(''q'', PStr location_arg), (''appid'', PStr (api_key self)),
                           (''units'', PStr units)]\<rparr>
      in (fetch (http req) location_arg (format_current_weather tz), self', [req]))"

text \<open>\<open>WeatherService.get_weather_forecast\<close>\<close>

definition service_get_weather_forecast ::
  "(int \<Rightarrow> int) \<Rightarrow> (request \<Rightarrow> forecast_raw http_outcome) \<Rightarrow> weather_service \<Rightarrow> string \<Rightarrow> int \<Rightarrow>
   string \<Rightarrow> (py_error + forecast_data) \<times> weather_service \<times> request list" where
  "service_get_weather_forecast tz http self location_arg days units =
     (let self' = get_session self;
          req = \<lparr>url = base_url self @ ''/forecast'',
                 params = [(''q'', PStr location_arg), (''appid'', PStr (api_key self)),
                           (''units'', PStr units), (''cnt'', PInt (min (days * 8) 40))]\<rparr>
      in (fetch (http req) location_arg (\<lambda>data. format_forecast_data tz data days), self', [req]))"

section \<open>The host runtime\<close>

text \<open>
  The host component is a shared object that the tools reach through the tool context
  and change in place, so it lives in a store: an address gives the key-value state of
  the host component at that address. A stored value is the service object, a text or a
  number; \<open>truthy\<close> is Python's truth value of it.
\<close>

datatype state_value = Service weather_service | Text string | Number int

fun truthy :: "state_value \<Rightarrow> bool" where
  "truthy (Service s) = True"
| "truthy (Text t) = (t \<noteq> [])"
| "truthy (Number n) = (n \<noteq> 0)"

type_synonym host_store = "nat \<Rightarrow> string \<Rightarrow> state_value option"

definition get_agent_specific_state :: "host_store \<Rightarrow> nat \<Rightarrow> string \<Rightarrow> state_value option" where
  "get_agent_specific_state store h key = store h key"

definition set_agent_specific_state :: "host_store \<Rightarrow> nat \<Rightarrow> string \<Rightarrow> state_value \<Rightarrow> host_store" where
  "set_agent_specific_state store h key v = store(h := (store h)(key \<mapsto> v))"

text \<open>
  The tool context: \<open>_invocation_context\<close> is an attribute (absent: \<open>AttributeError\<close>),
  \<open>agent\<close> and \<open>host_component\<close> are read with \<^verbatim>\<open>getattr(..., None)\<close>.
\<close>

record agent_object =
  host_component :: "nat option"

record invocation_context =
  agent :: "agent_object option"

record tool_context =
  invocation_context :: "invocation_context option"

text \<open>What a tool call does to the outside, in order.\<close>

datatype event = State_get nat string | Http_get request | Artifact_save string

text \<open>
  The rest of the environment of a tool call: the two endpoints, the host's
  \<open>save_artifact_with_metadata\<close> (it raises, or returns a dictionary whose \<open>status\<close> may
  be absent), the text of \<^verbatim>\<open>datetime.now(timezone.utc).strftime('%Y%m%d_%H%M%S')\<close>, the
  local time zone and the number and date formatting of Python
  (\<^verbatim>\<open>str(x)\<close>, \<^verbatim>\<open>{x:.1f}\<close>, \<^verbatim>\<open>{x:.0f}\<close>, \<^verbatim>\<open>strftime('%A, %B %d')\<close>).
\<close>

datatype report = Current_report current_weather | Forecast_report forecast_data

record environment =
  http_weather :: "request \<Rightarrow> current_raw http_outcome"
  http_forecast :: "request \<Rightarrow> forecast_raw http_outcome"
  save_artifact_with_metadata :: "string \<Rightarrow> report \<Rightarrow> py_error + string option"
  now_stamp :: string
  utcoffset :: "int \<Rightarrow> int"
  str_number :: "real \<Rightarrow> string"
  format_1f :: "real \<Rightarrow> string"
  format_0f :: "real \<Rightarrow> string"
  strftime_date :: "int \<Rightarrow> string"

section \<open>The tools\<close>

text \<open>
  The dictionaries a tool returns: the success dictionary with \<open>location\<close>, \<open>summary\<close>,
  \<open>data\<close> and, when saving was asked for, \<open>artifact\<close>; or the error dictionary with
  \<open>message\<close>. The artifact dictionary is \<^verbatim>\<open>{"filename", "status"}\<close> or
  \<^verbatim>\<open>{"status": "error", "message"}\<close>.
\<close>

datatype artifact_result = Artifact string string | Artifact_error string

datatype 'd tool_result =
    Success string string 'd "artifact_result option"
  | Error string

fun result_status :: "'d tool_result \<Rightarrow> string" where
  "result_status (Success l s d a) = ''success''"
| "result_status (Error m) = ''error''"

fun artifact_status :: "artifact_result \<Rightarrow> string" where
  "artifact_status (Artifact f s) = s"
| "artifact_status (Artifact_error m) = ''error''"

definition newline :: string where
  "newline = [CHR 0x0A]"

text \<open>The bullet U+2022 and the degree sign U+00B0, in UTF-8.\<close>

definition bullet :: string where
  "bullet = [CHR 0xE2, CHR 0x80, CHR 0xA2]"

definition degrees_celsius :: string where
  "degrees_celsius = [CHR 0xC2, CHR 0xB0, CHR ''C'']"

text \<open>\<open>_create_weather_summary\<close>\<close>

definition create_weather_summary :: "environment \<Rightarrow> current_weather \<Rightarrow> string" where
  "create_weather_summary env weather_data =
     (let temp_unit = degrees_celsius in
      ''Current weather in '' @ location weather_data @ '':'' @ newline @
      bullet @ '' Temperature: '' @ str_number env (temperature weather_data) @ temp_unit @
        '' (feels like '' @ str_number env (feels_like weather_data) @ temp_unit @ '')'' @ newline @
      bullet @ '' Conditions: '' @ description weather_data @ newline @
      bullet @ '' Humidity: '' @ str_number env (humidity weather_data) @ ''%'' @ newline @
      bullet @ '' Wind: '' @ str_number env (wind_speed weather_data) @ '' m/s'' @ newline @
      bullet @ '' Visibility: '' @ str_number env (visibility weather_data) @ '' km'')"

text \<open>\<^verbatim>\<open>s.strip()\<close>, on the ASCII white space.\<close>

definition is_space :: "char \<Rightarrow> bool" where
  "is_space c = ((of_char c :: nat) \<in> {9, 10, 11, 12, 13, 28, 29, 30, 31, 32})"

definition strip :: "string \<Rightarrow> string" where
  "strip s = rev (dropWhile is_space (rev (dropWhile is_space s)))"

text \<open>
  The loop of \<open>_create_forecast_summary\<close>; an empty dictionary among the forecasts has
  no \<open>date\<close>.
\<close>

fun forecast_summary_loop ::
  "environment \<Rightarrow> string \<Rightarrow> daily_record option list \<Rightarrow> py_error + string" where
  "forecast_summary_loop env summary [] = Inr summary"
| "forecast_summary_loop env summary (forecast # rest) =
     (case forecast of
        None \<Rightarrow> Inl (KeyError ''date'')
      | Some f \<Rightarrow>
          forecast_summary_loop env
            (summary @
             bullet @ '' '' @ strftime_date env (date f) @ '': '' @ description f @ newline @
             ''  High: '' @ format_1f env (temperature_max f) @ degrees_celsius @
               '', Low: '' @ format_1f env (temperature_min f) @ degrees_celsius @ newline @
             (if precipitation_probability f > 0 then
                ''  Precipitation: '' @ format_0f env (precipitation_probability f) @
                  ''% chance'' @ newline
              else []) @
             newline)
            rest)"

definition create_forecast_summary :: "environment \<Rightarrow> forecast_data \<Rightarrow> py_error + string" where
  "create_forecast_summary env forecast_data =
     and_then
       (forecast_summary_loop env
          (''Weather forecast for '' @ forecast_location forecast_data @ '':'' @ newline @ newline)
          (forecasts_list forecast_data))
       (\<lambda>summary. Inr (strip summary))"

text \<open>
  \<open>_save_weather_artifact\<close>: every exception is caught and becomes the error
  dictionary.
\<close>

definition save_weather_artifact ::
  "environment \<Rightarrow> report \<Rightarrow> string \<Rightarrow> artifact_result \<times> event list" where
  "save_weather_artifact env weather_data filename_base =
     (let filename = filename_base @ ''_'' @ now_stamp env @ ''.json'' in
      (case save_artifact_with_metadata env filename weather_data of
         Inl e \<Rightarrow> Artifact_error (''Failed to save artifact: '' @ py_str e)
       | Inr result \<Rightarrow> Artifact filename (get_default result ''success''),
       [Artifact_save filename]))"

text \<open>
  The lookup of the weather service at the start of both \<^verbatim>\<open>try\<close> blocks. It ends
  with an early error dictionary (\<open>Inr (Inl message)\<close>), with the service
  (\<open>Inr (Inr (h, service))\<close>) or with an exception.
\<close>

definition lookup_weather_service ::
  "tool_context \<Rightarrow> host_store \<Rightarrow>
   (py_error + (string + nat \<times> weather_service)) \<times> event list" where
  "lookup_weather_service ctx store =
     (case invocation_context ctx of
        None \<Rightarrow> (Inl (AttributeError ''_invocation_context''), [])
      | Some ic \<Rightarrow>
          (case (case agent ic of None \<Rightarrow> None | Some a \<Rightarrow> host_component a) of
             None \<Rightarrow> (Inr (Inl ''Could not access agent host component''), [])
           | Some h \<Rightarrow>
               (case get_agent_specific_state store h ''weather_service'' of
                  None \<Rightarrow> (Inr (Inl ''Weather service not initialized''), [State_get h ''weather_service''])
                | Some v \<Rightarrow>
                    if \<not> truthy v then
                      (Inr (Inl ''Weather service not initialized''), [State_get h ''weather_service''])
                    else
                      (case v of
                         Service self \<Rightarrow> (Inr (Inr (h, self)), [State_get h ''weather_service''])
                       | _ \<Rightarrow> (Inl (AttributeError ''get_current_weather''),
                               [State_get h ''weather_service''])))))"

text \<open>
  The two handlers that close both \<^verbatim>\<open>try\<close> blocks: \<^verbatim>\<open>except ValueError\<close>, then
  \<^verbatim>\<open>except Exception\<close>. An exception that is neither would leave the tool.
\<close>

definition tool_boundary :: "py_error + 'd tool_result \<Rightarrow> py_error + 'd tool_result" where
  "tool_boundary r =
     (case r of
        Inr result \<Rightarrow> Inr result
      | Inl e \<Rightarrow>
          if isinstance_ValueError e then Inr (Error (''Location error: '' @ py_str e))
          else if isinstance_Exception e then Inr (Error (''Weather service error: '' @ py_str e))
          else Inl e)"

text \<open>
  The tool \<open>get_current_weather\<close> of \<open>tools.py\<close>: what it returns (or raises), the store
  after the call and the events of the call.
\<close>

definition get_current_weather ::
  "environment \<Rightarrow> string \<Rightarrow> string \<Rightarrow> bool \<Rightarrow> tool_context option \<Rightarrow> host_store \<Rightarrow>
   (py_error + current_weather tool_result) \<times> host_store \<times> event list" where
  "get_current_weather env location_arg units save_to_file tool_context store =
     (case tool_context of
        None \<Rightarrow> (Inr (Error ''Tool context is required for weather operations''), store, [])
      | Some ctx \<Rightarrow>
          (case lookup_weather_service ctx store of
             (Inl e, evs) \<Rightarrow> (tool_boundary (Inl e), store, evs)
           | (Inr (Inl msg), evs) \<Rightarrow> (tool_boundary (Inr (Error msg)), store, evs)
           | (Inr (Inr (h, weather_service)), evs) \<Rightarrow>
               (case service_get_current_weather (utcoffset env) (http_weather env)
                       weather_service location_arg units of
                  (fetched, service', reqs) \<Rightarrow>
                    (let store' = set_agent_specific_state store h ''weather_service'' (Service service');
                         evs' = evs @ map Http_get reqs
                     in case fetched of
                          Inl e \<Rightarrow> (tool_boundary (Inl e), store', evs')
                        | Inr weather_data \<Rightarrow>
                            (let summary = create_weather_summary env weather_data in
                             if save_to_file then
                               (case save_weather_artifact env (Current_report weather_data)
                                       (''current_weather_'' @ location_arg) of
                                  (artifact_result, saves) \<Rightarrow>
                                    (tool_boundary
                                       (Inr (Success (location weather_data) summary weather_data
                                               (Some artifact_result))),
                                     store', evs' @ saves))
                             else
                               (tool_boundary
                                  (Inr (Success (location weather_data) summary weather_data None)),
                                store', evs'))))))"

text \<open>\<^verbatim>\<open>f"forecast_{location}_{days}day"\<close> needs the decimal text of \<open>days\<close>.\<close>

fun digits :: "nat \<Rightarrow> nat \<Rightarrow> string" where
  "digits 0 n = []"
| "digits (Suc fuel) n =
     (if n < 10 then [char_of (48 + n)] else digits fuel (n div 10) @ [char_of (48 + n mod 10)])"

definition str_int :: "int \<Rightarrow> string" where
  "str_int i = (if i < 0 then ''-'' @ digits (Suc (nat (- i))) (nat (- i)) else digits (Suc (nat i)) (nat i))"

text \<open>The tool \<open>get_weather_forecast\<close> of \<open>tools.py\<close>.\<close>

definition get_weather_forecast ::
  "environment \<Rightarrow> string \<Rightarrow> int \<Rightarrow> string \<Rightarrow> bool \<Rightarrow> tool_context option \<Rightarrow> host_store \<Rightarrow>
   (py_error + forecast_data tool_result) \<times> host_store \<times> event list" where
  "get_weather_forecast env location_arg days units save_to_file tool_context store =
     (case tool_context of
        None \<Rightarrow> (Inr (Error ''Tool context is required for weather operations''), store, [])
      | Some ctx \<Rightarrow>
          if \<not> (1 \<le> days \<and> days \<le> 5) then
            (Inr (Error ''Days must be between 1 and 5''), store, [])
          else
          (case lookup_weather_service ctx store of
             (Inl e, evs) \<Rightarrow> (tool_boundary (Inl e), store, evs)
           | (Inr (Inl msg), evs) \<Rightarrow> (tool_boundary (Inr (Error msg)), store, evs)
           | (Inr (Inr (h, weather_service)), evs) \<Rightarrow>
               (case service_get_weather_forecast (utcoffset env) (http_forecast env)
                       weather_service location_arg days units of
                  (fetched, service', reqs) \<Rightarrow>
                    (let store' = set_agent_specific_state store h ''weather_service'' (Service service');
                         evs' = evs @ map Http_get reqs
                     in case fetched of
                          Inl e \<Rightarrow> (tool_boundary (Inl e), store', evs')
                        | Inr forecast_data \<Rightarrow>
                            (case create_forecast_summary env forecast_data of
                               Inl e \<Rightarrow> (tool_boundary (Inl e), store', evs')
                             | Inr summary \<Rightarrow>
                                 if save_to_file then
                                   (case save_weather_artifact env (Forecast_report forecast_data)
                                           (''forecast_'' @ location_arg @ ''_'' @ str_int days @ ''day'') of
                                      (artifact_result, saves) \<Rightarrow>
                                        (tool_boundary
                                           (Inr (Success (forecast_location forecast_data) summary
                                                   forecast_data (Some artifact_result))),
                                         store', evs' @ saves))
                                 else
                                   (tool_boundary
                                      (Inr (Success (forecast_location forecast_data) summary
                                              forecast_data None)),
                                    store', evs'))))))"

section \<open>Lifecycle\<close>

record init_config =
  config_api_key :: string
  config_base_url :: string
  startup_message :: string

text \<open>\<open>initialize_weather_agent\<close>: the three values it stores in the agent state.\<close>

definition initialize_weather_agent :: "nat \<Rightarrow> init_config \<Rightarrow> host_store \<Rightarrow> host_store" where
  "initialize_weather_agent h init_config store =
     (let weather_service = WeatherService (config_api_key init_config) (config_base_url init_config);
          store1 = set_agent_specific_state store h ''weather_service'' (Service weather_service);
          store2 = set_agent_specific_state store1 h ''initialized_at'' (Text ''2024-01-01T00:00:00Z'')
      in set_agent_specific_state store2 h ''weather_requests_count'' (Number 0))"

text \<open>
  \<open>cleanup_async\<close> inside \<open>cleanup_weather_agent\<close>: the store after the cleanup and the
  request count it read for its statistics line (\<open>None\<close> when an exception of the
  \<^verbatim>\<open>try\<close> block skipped that line). \<^verbatim>\<open>get_agent_specific_state(key, 0)\<close> has the default 0.
\<close>

definition cleanup_weather_agent ::
  "py_error option \<Rightarrow> nat \<Rightarrow> host_store \<Rightarrow> host_store \<times> state_value option" where
  "cleanup_weather_agent library_close h store =
     (case
        (case get_agent_specific_state store h ''weather_service'' of
           None \<Rightarrow> Inr store
         | Some v \<Rightarrow>
             if truthy v then
               (case v of
                  Service self \<Rightarrow>
                    and_then (close library_close self) (\<lambda>self'.
                      Inr (set_agent_specific_state store h ''weather_service'' (Service self')))
                | _ \<Rightarrow> Inl (AttributeError ''close''))
             else Inr store)
      of
        Inl e \<Rightarrow> (store, None)
      | Inr store' \<Rightarrow>
          (store',
           Some (get_default (get_agent_specific_state store' h ''weather_requests_count'') (Number 0))))"

text \<open>
  The host runtime calling the tools: each call has its own environment and tool
  context, and the store is handed from one call to the next.
\<close>

datatype tool_call =
    Current_weather_call string string bool
  | Weather_forecast_call string int string bool

fun run_tool_call ::
  "environment \<times> tool_context option \<times> tool_call \<Rightarrow> host_store \<Rightarrow> host_store" where
  "run_tool_call (env, ctx, Current_weather_call l u s) store =
     fst (snd (get_current_weather env l u s ctx store))"
| "run_tool_call (env, ctx, Weather_forecast_call l d u s) store =
     fst (snd (get_weather_forecast env l d u s ctx store))"

definition run_tool_calls ::
  "(environment \<times> tool_context option \<times> tool_call) list \<Rightarrow> host_store \<Rightarrow> host_store" where
  "run_tool_calls calls store = fold run_tool_call calls store"

section \<open>Notions used by the statements\<close>

text \<open>
  A sample the aggregation can read: the keys it subscripts are present (\<open>dt\<close>,
  \<open>main.temp\<close>, \<open>main.humidity\<close>, a first \<open>weather\<close> entry with a \<open>description\<close>).
\<close>

definition well_formed :: "raw_sample \<Rightarrow> bool" where
  "well_formed s =
     (dt s \<noteq> None \<and>
      (case main s of None \<Rightarrow> False | Some m \<Rightarrow> main_temp m \<noteq> None \<and> main_humidity m \<noteq> None) \<and>
      (case weather s of Some (w # _) \<Rightarrow> weather_description w \<noteq> None | _ \<Rightarrow> False))"

text \<open>The calendar date and the hour of a sample, in local time.\<close>

definition sample_date :: "(int \<Rightarrow> int) \<Rightarrow> raw_sample \<Rightarrow> int" where
  "sample_date tz s = fromtimestamp_date tz (the (dt s))"

definition sample_hour :: "(int \<Rightarrow> int) \<Rightarrow> raw_sample \<Rightarrow> int" where
  "sample_hour tz s = fromtimestamp_hour tz (the (dt s))"

text \<open>The maximal runs of neighbours with the same key, in order.\<close>

fun runs :: "('a \<Rightarrow> 'k) \<Rightarrow> 'a list \<Rightarrow> 'a list list" where
  "runs f [] = []"
| "runs f (x # xs) =
     (case runs f xs of
        [] \<Rightarrow> [[x]]
      | g # gs \<Rightarrow> if f x = f (hd g) then (x # g) # gs else [x] # g # gs)"

text \<open>A service whose session is closed or was never opened.\<close>

definition is_closed :: "weather_service \<Rightarrow> bool" where
  "is_closed self = (case session self of None \<Rightarrow> True | Some s \<Rightarrow> closed s)"

section \<open>Example inputs\<close>

text \<open>Concrete samples, documents, an environment and a host store on which the
  statements below are evaluated.\<close>

definition utc :: "int \<Rightarrow> int" where
  "utc t = 0"

definition sample_at :: "int \<Rightarrow> string \<Rightarrow> real \<Rightarrow> raw_sample" where
  "sample_at t d temp =
     \<lparr>dt = Some t,
      main = Some \<lparr>main_temp = Some temp, main_feels_like = None, main_humidity = Some 50,
                   main_pressure = None\<rparr>,
      weather = Some [\<lparr>weather_description = Some d\<rparr>],
      wind = None,
      pop = None\<rparr>"

definition example_current :: current_raw where
  "example_current =
     \<lparr>dt = Some 43200,
      main = Some \<lparr>main_temp = Some 68, main_feels_like = Some 66, main_humidity = Some 50,
                   main_pressure = Some 1013\<rparr>,
      weather = Some [\<lparr>weather_description = Some ''clear sky''\<rparr>],
      wind = None,
      name = Some ''London'',
      sys = Some \<lparr>country = Some ''GB'', sys_sunrise = Some 21600, sys_sunset = Some 64800\<rparr>,
      raw_visibility = Some 10000\<rparr>"

definition example_forecast :: forecast_raw where
  "example_forecast =
     \<lparr>forecast_list = Some [sample_at 21600 ''mist'' 10, sample_at 43200 ''clear sky'' 20],
      city = Some \<lparr>city_name = Some ''London'', city_country = Some ''GB''\<rparr>\<rparr>"

definition example_environment :: "int \<Rightarrow> py_error + string option \<Rightarrow> environment" where
  "example_environment code saved =
     \<lparr>http_weather = (\<lambda>req. Get_responds \<lparr>status = code,
                          json = Inr \<lparr>message = None, document = example_current\<rparr>\<rparr>),
      http_forecast = (\<lambda>req. Get_responds \<lparr>status = code,
                          json = Inr \<lparr>message = None, document = example_forecast\<rparr>\<rparr>),
      save_artifact_with_metadata = (\<lambda>filename content. saved),
      now_stamp = ''20240101_000000'',
      utcoffset = utc,
      str_number = (\<lambda>x. ''n''),
      format_1f = (\<lambda>x. ''n.n''),
      format_0f = (\<lambda>x. ''n''),
      strftime_date = (\<lambda>d. ''Monday, January 01'')\<rparr>"

definition example_context :: tool_context where
  "example_context =
     \<lparr>invocation_context = Some \<lparr>agent = Some \<lparr>host_component = Some 0\<rparr>\<rparr>\<rparr>"

definition example_store :: host_store where
  "example_store =
     initialize_weather_agent 0
       \<lparr>config_api_key = ''key'', config_base_url = ''http://api'', startup_message = ''ready''\<rparr>
       (\<lambda>h. Map.empty)"

text \<open>The samples of one day at the hours 6, 12 and 18, and two samples equally far
  from noon (hours 9 and 15).\<close>

definition example_day :: "raw_sample list" where
  "example_day =
     [sample_at 21600 ''mist'' 10, sample_at 43200 ''clear sky'' 20,
      sample_at 64800 ''light rain'' 15]"

definition example_tie :: "raw_sample list" where
  "example_tie = [sample_at 32400 ''mist'' 10, sample_at 54000 ''light rain'' 12]"

text \<open>What the two example documents normalise to.\<close>

definition example_daily :: forecast_data where
  "example_daily =
     \<lparr>forecast_location = ''London, GB'',
      forecasts_list =
        [Some \<lparr>description = ''Clear Sky'', humidity = 50, wind_speed = 0, date = 0,
                temperature_min = 10, temperature_max = 20, precipitation_probability = 0\<rparr>]\<rparr>"

definition example_weather :: current_weather where
  "example_weather =
     \<lparr>description = ''Clear Sky'', humidity = 50, wind_speed = 0,
      location = ''London, GB'', temperature = 68, feels_like = 66,
      pressure = 1013, wind_direction = 0, visibility = 10,
      timestamp = 43200, sunrise = 21600, sunset = 64800\<rparr>"

section \<open>Properties\<close>

lemma and_then_Inr [simp]: "and_then (Inr v) f = f v"
  by (simp add: and_then_def)

lemma and_then_Inl [simp]: "and_then (Inl e) f = Inl e"
  by (simp add: and_then_def)

subsection \<open>Empty input\<close>

text \<open>Claim C7. Aggregating an empty sample list gives the empty sequence of daily
  records, for every requested number of days, and never raises: the loop body is not
  entered, the final flush is skipped because no group is open, and the slice of the
  empty list is empty. The per-day aggregator on an empty group returns the empty
  record, and a forecast document with an empty list normalises to a forecast with no
  days.\<close>

theorem aggregate_daily_empty:
  "aggregate_daily tz [] days = Inr [] \<and>
   aggregate_daily_forecast tz [] = Inr None \<and>
   format_forecast_data tz
     \<lparr>forecast_list = Some [], city = Some \<lparr>city_name = Some n, city_country = Some c\<rparr>\<rparr> days =
   Inr \<lparr>forecast_location = n @ '', '' @ c, forecasts_list = []\<rparr>"
  by (simp add: aggregate_daily_def aggregate_daily_forecast_def format_forecast_data_def
      slice_to_def getitem_def city_location_def)


subsection \<open>Closing the client\<close>

text \<open>Claim C8. Closing is idempotent: on a service whose session was never opened
  \<^verbatim>\<open>close\<close> changes nothing and does not raise, and after a \<^verbatim>\<open>close\<close> that returned, the
  service is closed and a second \<^verbatim>\<open>close\<close> returns the same service without calling the
  library again (whatever that call would have done).\<close>

theorem close_idempotent:
  "(session self = None \<longrightarrow> close library_close self = Inr self) \<and>
   (close library_close self = Inr self' \<longrightarrow>
      is_closed self' \<and> close library_close' self' = Inr self')"
  by (auto simp: close_def is_closed_def split: option.splits if_splits)

theorem close_idempotent_witness:
  "session (WeatherService ''key'' ''http://api'') = None \<and>
   close None (WeatherService ''key'' ''http://api'') = Inr (WeatherService ''key'' ''http://api'') \<and>
   close None (get_session (WeatherService ''key'' ''http://api'')) =
     Inr \<lparr>api_key = ''key'', base_url = ''http://api'', session = Some \<lparr>closed = True\<rparr>\<rparr> \<and>
   is_closed \<lparr>api_key = ''key'', base_url = ''http://api'', session = Some \<lparr>closed = True\<rparr>\<rparr> \<and>
   close None \<lparr>api_key = ''key'', base_url = ''http://api'', session = Some \<lparr>closed = True\<rparr>\<rparr> =
     Inr \<lparr>api_key = ''key'', base_url = ''http://api'', session = Some \<lparr>closed = True\<rparr>\<rparr>"
  using close_idempotent [of "WeatherService ''key'' ''http://api''" None
      "WeatherService ''key'' ''http://api''" None]
    close_idempotent [of "get_session (WeatherService ''key'' ''http://api'')" None
      "\<lparr>api_key = ''key'', base_url = ''http://api'', session = Some \<lparr>closed = True\<rparr>\<rparr>" None]
  by (simp add: WeatherService_def get_session_def close_def is_closed_def)

subsection \<open>The outcome of a tool call\<close>

text \<open>The handlers turn every exception of the model into an error dictionary.\<close>

lemma tool_boundary_Inr [simp]: "tool_boundary (Inr r) = Inr r"
  by (simp add: tool_boundary_def)

lemma tool_boundary_Inl [simp]:
  "tool_boundary (Inl e) =
     Inr (Error ((if isinstance_ValueError e then ''Location error: ''
                  else ''Weather service error: '') @ py_str e))"
  by (simp add: tool_boundary_def)

lemma result_status_cases: "result_status r = ''success'' \<or> result_status r = ''error''"
  by (cases r) simp_all

lemma lookup_cases:
  obtains (raises) e evs where "lookup_weather_service ctx store = (Inl e, evs)"
  | (early) msg evs where "lookup_weather_service ctx store = (Inr (Inl msg), evs)"
  | (found) h self evs where "lookup_weather_service ctx store = (Inr (Inr (h, self)), evs)"
proof (cases "lookup_weather_service ctx store")
  case (Pair a evs)
  show ?thesis
  proof (cases a)
    case (Inl e)
    with Pair raises show ?thesis by simp
  next
    case (Inr b)
    show ?thesis
    proof (cases b)
      case (Inl msg)
      with Pair Inr early show ?thesis by simp
    next
      case inner: (Inr p)
      obtain h self where "p = (h, self)" by (cases p)
      with Pair Inr inner found show ?thesis by simp
    qed
  qed
qed

lemma get_current_weather_raises:
  "lookup_weather_service ctx store = (Inl e, evs) \<Longrightarrow>
   get_current_weather env l u s (Some ctx) store = (tool_boundary (Inl e), store, evs)"
  by (simp add: get_current_weather_def)

lemma get_current_weather_early:
  "lookup_weather_service ctx store = (Inr (Inl msg), evs) \<Longrightarrow>
   get_current_weather env l u s (Some ctx) store = (Inr (Error msg), store, evs)"
  by (simp add: get_current_weather_def)

lemma get_current_weather_found:
  assumes "lookup_weather_service ctx store = (Inr (Inr (h, self)), evs)"
    and "service_get_current_weather (utcoffset env) (http_weather env) self l u =
           (fetched, self', reqs)"
  shows "get_current_weather env l u s (Some ctx) store =
     (case fetched of
        Inl e \<Rightarrow> tool_boundary (Inl e)
      | Inr weather_data \<Rightarrow>
          Inr (Success (location weather_data) (create_weather_summary env weather_data)
                 weather_data
                 (if s then Some (fst (save_weather_artifact env (Current_report weather_data)
                                         (''current_weather_'' @ l)))
                  else None)),
      set_agent_specific_state store h ''weather_service'' (Service self'),
      evs @ map Http_get reqs @
      (case fetched of
         Inl e \<Rightarrow> []
       | Inr weather_data \<Rightarrow>
           if s then snd (save_weather_artifact env (Current_report weather_data)
                            (''current_weather_'' @ l))
           else []))"
proof (cases fetched)
  case (Inl e)
  with assms show ?thesis
    unfolding get_current_weather_def Let_def
    by (simp only: option.case prod.case sum.case) simp
next
  case (Inr weather_data)
  with assms show ?thesis
    unfolding get_current_weather_def Let_def
    by (simp only: option.case prod.case sum.case case_prod_beta tool_boundary_Inr) simp
qed

lemma get_weather_forecast_raises:
  "1 \<le> days \<Longrightarrow> days \<le> 5 \<Longrightarrow> lookup_weather_service ctx store = (Inl e, evs) \<Longrightarrow>
   get_weather_forecast env l days u s (Some ctx) store = (tool_boundary (Inl e), store, evs)"
  by (simp add: get_weather_forecast_def)

lemma get_weather_forecast_early:
  "1 \<le> days \<Longrightarrow> days \<le> 5 \<Longrightarrow> lookup_weather_service ctx store = (Inr (Inl msg), evs) \<Longrightarrow>
   get_weather_forecast env l days u s (Some ctx) store = (Inr (Error msg), store, evs)"
  by (simp add: get_weather_forecast_def)

lemma get_weather_forecast_found:
  assumes "1 \<le> days" and "days \<le> 5"
    and "lookup_weather_service ctx store = (Inr (Inr (h, self)), evs)"
    and "service_get_weather_forecast (utcoffset env) (http_forecast env) self l days u =
           (fetched, self', reqs)"
  shows "get_weather_forecast env l days u s (Some ctx) store =
     (case and_then fetched (\<lambda>forecast_data.
             and_then (create_forecast_summary env forecast_data) (\<lambda>summary.
               Inr (forecast_data, summary))) of
        Inl e \<Rightarrow> tool_boundary (Inl e)
      | Inr (forecast_data, summary) \<Rightarrow>
          Inr (Success (forecast_location forecast_data) summary forecast_data
                 (if s then Some (fst (save_weather_artifact env (Forecast_report forecast_data)
                                         (''forecast_'' @ l @ ''_'' @ str_int days @ ''day'')))
                  else None)),
      set_agent_specific_state store h ''weather_service'' (Service self'),
      evs @ map Http_get reqs @
      (case and_then fetched (\<lambda>forecast_data.
             and_then (create_forecast_summary env forecast_data) (\<lambda>summary.
               Inr (forecast_data, summary))) of
         Inl e \<Rightarrow> []
       | Inr (forecast_data, summary) \<Rightarrow>
           if s then snd (save_weather_artifact env (Forecast_report forecast_data)
                            (''forecast_'' @ l @ ''_'' @ str_int days @ ''day''))
           else []))"
proof (cases fetched)
  case (Inl e)
  with assms show ?thesis
    unfolding get_weather_forecast_def Let_def
    by (simp only: option.case prod.case sum.case and_then_Inl) simp
next
  case (Inr forecast_data)
  show ?thesis
  proof (cases "create_forecast_summary env forecast_data")
    case (Inl e)
    with Inr assms show ?thesis
      unfolding get_weather_forecast_def Let_def
      by (simp only: option.case prod.case sum.case and_then_Inl and_then_Inr) simp
  next
    case inner: (Inr summary)
    with Inr assms show ?thesis
      unfolding get_weather_forecast_def Let_def
      by (simp only: option.case prod.case sum.case and_then_Inl and_then_Inr case_prod_beta
          tool_boundary_Inr) simp
  qed
qed

subsection \<open>The tools never raise\<close>

lemma get_current_weather_returns:
  "\<exists>r. fst (get_current_weather env l u s tc store) = Inr r"
proof (cases tc)
  case None
  then show ?thesis by (simp add: get_current_weather_def)
next
  case (Some ctx)
  show ?thesis
  proof (cases ctx store rule: lookup_cases)
    case (raises e evs)
    then show ?thesis by (simp add: Some get_current_weather_raises)
  next
    case (early msg evs)
    then show ?thesis by (simp add: Some get_current_weather_early)
  next
    case (found h self evs)
    obtain fetched self' reqs where
      "service_get_current_weather (utcoffset env) (http_weather env) self l u =
         (fetched, self', reqs)"
      by (cases "service_get_current_weather (utcoffset env) (http_weather env) self l u")
    from get_current_weather_found [OF found this]
    have "fst (get_current_weather env l u s (Some ctx) store) =
      (case fetched of
        Inl e \<Rightarrow> tool_boundary (Inl e)
      | Inr weather_data \<Rightarrow>
          Inr (Success (location weather_data) (create_weather_summary env weather_data)
                 weather_data
                 (if s then Some (fst (save_weather_artifact env (Current_report weather_data)
                                         (''current_weather_'' @ l)))
                  else None)))"
      by (simp only: fst_conv)
    then show ?thesis
      unfolding Some by (cases fetched) (simp_all only: sum.case tool_boundary_Inl, blast+)
  qed
qed

lemma get_weather_forecast_returns:
  "\<exists>r. fst (get_weather_forecast env l days u s tc store) = Inr r"
proof (cases tc)
  case None
  then show ?thesis by (simp add: get_weather_forecast_def)
next
  case (Some ctx)
  show ?thesis
  proof (cases "1 \<le> days \<and> days \<le> 5")
    case False
    then show ?thesis by (simp add: Some get_weather_forecast_def)
  next
    case True
    then have d: "1 \<le> days" "days \<le> 5" by simp_all
    show ?thesis
    proof (cases ctx store rule: lookup_cases)
      case (raises e evs)
      then show ?thesis by (simp add: Some get_weather_forecast_raises d)
    next
      case (early msg evs)
      then show ?thesis by (simp add: Some get_weather_forecast_early d)
    next
      case (found h self evs)
      obtain fetched self' reqs where
        "service_get_weather_forecast (utcoffset env) (http_forecast env) self l days u =
           (fetched, self', reqs)"
        by (cases "service_get_weather_forecast (utcoffset env) (http_forecast env) self l days u")
      from get_weather_forecast_found [OF d found this]
      have "fst (get_weather_forecast env l days u s (Some ctx) store) =
       (case and_then fetched (\<lambda>forecast_data.
             and_then (create_forecast_summary env forecast_data) (\<lambda>summary.
               Inr (forecast_data, summary))) of
        Inl e \<Rightarrow> tool_boundary (Inl e)
      | Inr (forecast_data, summary) \<Rightarrow>
          Inr (Success (forecast_location forecast_data) summary forecast_data
                 (if s then Some (fst (save_weather_artifact env (Forecast_report forecast_data)
                                         (''forecast_'' @ l @ ''_'' @ str_int days @ ''day'')))
                  else None)))"
        by (simp only: fst_conv)
      then show ?thesis
        unfolding Some
        by (cases "and_then fetched (\<lambda>forecast_data.
             and_then (create_forecast_summary env forecast_data) (\<lambda>summary.
               Inr (forecast_data, summary)))")
          (simp_all only: sum.case tool_boundary_Inl case_prod_beta, blast+)
    qed
  qed
qed

text \<open>Claim C3. Both tools always return a dictionary whose \<open>status\<close> is \<open>success\<close> or
  \<open>error\<close>, for every environment, argument, tool context and host state: no exception
  of the lookup, of the service call, of the summary or of the artifact step leaves the
  tool, because \<^verbatim>\<open>except Exception\<close> closes the \<^verbatim>\<open>try\<close> block and the two checks before
  it cannot raise.\<close>

theorem tools_always_return:
  "(\<exists>r. fst (get_current_weather env l u s tc store) = Inr r \<and>
        (result_status r = ''success'' \<or> result_status r = ''error'')) \<and>
   (\<exists>r. fst (get_weather_forecast env l days u s tc store) = Inr r \<and>
        (result_status r = ''success'' \<or> result_status r = ''error''))"
proof -
  obtain r where r: "fst (get_current_weather env l u s tc store) = Inr r"
    using get_current_weather_returns by (rule exE)
  obtain r' where r': "fst (get_weather_forecast env l days u s tc store) = Inr r'"
    using get_weather_forecast_returns by (rule exE)
  from r result_status_cases [of r]
  have a: "\<exists>r. fst (get_current_weather env l u s tc store) = Inr r \<and>
        (result_status r = ''success'' \<or> result_status r = ''error'')"
    by (intro exI [of _ r] conjI)
  from r' result_status_cases [of r']
  have b: "\<exists>r. fst (get_weather_forecast env l days u s tc store) = Inr r \<and>
        (result_status r = ''success'' \<or> result_status r = ''error'')"
    by (intro exI [of _ r'] conjI)
  from a b show ?thesis by (rule conjI)
qed

subsection \<open>The validation of \<open>days\<close>\<close>

text \<open>The tool \<open>get_weather_forecast\<close> tests its tool context before it tests \<open>days\<close>.
  Called without a tool context and with \<open>days = 0\<close> it returns the dictionary of the
  missing context, not the validation error of \<open>days\<close>.\<close>

theorem forecast_days_without_context:
  "fst (get_weather_forecast (example_environment 200 (Inr None)) ''London'' 0 ''metric'' False
          None example_store) =
     Inr (Error ''Tool context is required for weather operations'') \<and>
   fst (get_weather_forecast (example_environment 200 (Inr None)) ''London'' 0 ''metric'' False
          None example_store) \<noteq>
     Inr (Error ''Days must be between 1 and 5'')"
  by (simp add: get_weather_forecast_def)

text \<open>Claim C4, with the order of the two checks made explicit. For every \<open>days\<close>
  outside 1..5 the tool returns an error dictionary, leaves the host state as it was
  and causes no event at all (no state lookup, no request, no artifact). The message is
  \<open>Days must be between 1 and 5\<close> when a tool context was passed, and
  \<open>Tool context is required for weather operations\<close> when none was.\<close>

theorem forecast_days_validation:
  "\<not> (1 \<le> days \<and> days \<le> 5) \<Longrightarrow>
   get_weather_forecast env l days u s tc store =
     (Inr (Error (if tc = None then ''Tool context is required for weather operations''
                  else ''Days must be between 1 and 5'')), store, [])"
  by (cases tc) (simp_all add: get_weather_forecast_def)

theorem forecast_days_validation_witness:
  "\<not> (1 \<le> (6 :: int) \<and> (6 :: int) \<le> 5) \<and>
   get_weather_forecast (example_environment 200 (Inr None)) ''London'' 6 ''metric'' False
     (Some example_context) example_store =
     (Inr (Error ''Days must be between 1 and 5''), example_store, [])"
  using forecast_days_validation [of 6 "example_environment 200 (Inr None)" "''London''"
      "''metric''" False "Some example_context" example_store]
  by simp

subsection \<open>Unknown locations\<close>

lemma fetch_404:
  "status r = 404 \<Longrightarrow>
   fetch (Get_responds r) l normalise =
     Inl (ValueError (''Location '' @ [CHR 0x27] @ l @ [CHR 0x27] @ '' not found''))"
  by (simp add: fetch_def)

lemma example_lookup:
  "lookup_weather_service example_context example_store =
     (Inr (Inr (0, WeatherService ''key'' ''http://api'')), [State_get 0 ''weather_service''])"
  by (simp add: lookup_weather_service_def example_context_def example_store_def
      initialize_weather_agent_def set_agent_specific_state_def get_agent_specific_state_def Let_def)

lemma fetch_upstream:
  "status r \<noteq> 200 \<Longrightarrow> status r \<noteq> 404 \<Longrightarrow> json r = Inr d \<Longrightarrow>
   fetch (Get_responds r) l normalise =
     Inl (Exception (''Weather API error: '' @ get_default (message d) ''Unknown error''))"
  by (simp add: fetch_def)

lemma get_current_weather_fetch_raises:
  assumes "lookup_weather_service ctx store = (Inr (Inr (h, self)), evs)"
    and "fetch (http_weather env
                  \<lparr>url = base_url self @ ''/weather'',
                   params = [(''q'', PStr l), (''appid'', PStr (api_key self)),
                             (''units'', PStr u)]\<rparr>)
           l (format_current_weather (utcoffset env)) = Inl e"
  shows "fst (service_get_current_weather (utcoffset env) (http_weather env) self l u) = Inl e \<and>
         fst (get_current_weather env l u s (Some ctx) store) = tool_boundary (Inl e)"
proof -
  have sv: "service_get_current_weather (utcoffset env) (http_weather env) self l u =
      (Inl e, get_session self,
       [\<lparr>url = base_url self @ ''/weather'',
         params = [(''q'', PStr l), (''appid'', PStr (api_key self)), (''units'', PStr u)]\<rparr>])"
    using assms(2) by (simp add: service_get_current_weather_def Let_def)
  have "fst (get_current_weather env l u s (Some ctx) store) = tool_boundary (Inl e)"
    by (simp only: get_current_weather_found [OF assms(1) sv] fst_conv sum.case)
  with sv show ?thesis by simp
qed

lemma get_weather_forecast_fetch_raises:
  assumes "lookup_weather_service ctx store = (Inr (Inr (h, self)), evs)"
    and "1 \<le> days" and "days \<le> 5"
    and "fetch (http_forecast env
                  \<lparr>url = base_url self @ ''/forecast'',
                   params = [(''q'', PStr l), (''appid'', PStr (api_key self)),
                             (''units'', PStr u), (''cnt'', PInt (min (days * 8) 40))]\<rparr>)
           l (\<lambda>data. format_forecast_data (utcoffset env) data days) = Inl e"
  shows "fst (service_get_weather_forecast (utcoffset env) (http_forecast env) self l days u) =
           Inl e \<and>
         fst (get_weather_forecast env l days u s (Some ctx) store) = tool_boundary (Inl e)"
proof -
  have sv: "service_get_weather_forecast (utcoffset env) (http_forecast env) self l days u =
      (Inl e, get_session self,
       [\<lparr>url = base_url self @ ''/forecast'',
         params = [(''q'', PStr l), (''appid'', PStr (api_key self)), (''units'', PStr u),
                   (''cnt'', PInt (min (days * 8) 40))]\<rparr>])"
    using assms(4) by (simp add: service_get_weather_forecast_def Let_def)
  have "fst (get_weather_forecast env l days u s (Some ctx) store) = tool_boundary (Inl e)"
    by (simp only: get_weather_forecast_found [OF assms(2,3,1) sv] fst_conv sum.case
        and_then_Inl)
  with sv show ?thesis by simp
qed

text \<open>Claim C5. With a usable context, an initialised service and \<open>days\<close> in range:
  when the provider answers 404, the request method of the client raises \<open>ValueError\<close>
  with the message \<open>Location '<location>' not found\<close>, which carries the requested
  location, and the tool returns the error dictionary whose message is
  \<open>Location error: \<close> followed by that text, never a \<open>Weather service error: \<close> message.
  When the provider answers with any other status than 200 and 404 and a decodable
  body, the request method raises \<open>Exception\<close> with \<open>Weather API error: \<close> and the
  provider's message (\<open>Unknown error\<close> when it has none), and the tool returns the
  message \<open>Weather service error: \<close> followed by that text, never a \<open>Location error: \<close>
  message. So the two results are distinct, for both endpoints.\<close>

theorem not_found_and_upstream_errors:
  assumes "lookup_weather_service ctx store = (Inr (Inr (h, self)), evs)"
    and "1 \<le> days" and "days \<le> 5"
  shows
    "((\<forall>req. \<exists>r. http_weather env req = Get_responds r \<and> status r = 404) \<longrightarrow>
        fst (service_get_current_weather (utcoffset env) (http_weather env) self l u) =
          Inl (ValueError (''Location '' @ [CHR 0x27] @ l @ [CHR 0x27] @ '' not found'')) \<and>
        fst (get_current_weather env l u s (Some ctx) store) =
          Inr (Error (''Location error: Location '' @ [CHR 0x27] @ l @ [CHR 0x27] @
                      '' not found'')) \<and>
        (\<forall>m. fst (get_current_weather env l u s (Some ctx) store) \<noteq>
               Inr (Error (''Weather service error: '' @ m)))) \<and>
     ((\<forall>req. \<exists>r. http_forecast env req = Get_responds r \<and> status r = 404) \<longrightarrow>
        fst (service_get_weather_forecast (utcoffset env) (http_forecast env) self l days u) =
          Inl (ValueError (''Location '' @ [CHR 0x27] @ l @ [CHR 0x27] @ '' not found'')) \<and>
        fst (get_weather_forecast env l days u s (Some ctx) store) =
          Inr (Error (''Location error: Location '' @ [CHR 0x27] @ l @ [CHR 0x27] @
                      '' not found'')) \<and>
        (\<forall>m. fst (get_weather_forecast env l days u s (Some ctx) store) \<noteq>
               Inr (Error (''Weather service error: '' @ m)))) \<and>
     ((\<forall>req. \<exists>r d. http_weather env req = Get_responds r \<and> status r \<noteq> 200 \<and>
                status r \<noteq> 404 \<and> json r = Inr d \<and> message d = msg) \<longrightarrow>
        fst (service_get_current_weather (utcoffset env) (http_weather env) self l u) =
          Inl (Exception (''Weather API error: '' @ get_default msg ''Unknown error'')) \<and>
        fst (get_current_weather env l u s (Some ctx) store) =
          Inr (Error (''Weather service error: Weather API error: '' @
                      get_default msg ''Unknown error'')) \<and>
        (\<forall>m. fst (get_current_weather env l u s (Some ctx) store) \<noteq>
               Inr (Error (''Location error: '' @ m)))) \<and>
     ((\<forall>req. \<exists>r d. http_forecast env req = Get_responds r \<and> status r \<noteq> 200 \<and>
                status r \<noteq> 404 \<and> json r = Inr d \<and> message d = msg') \<longrightarrow>
        fst (service_get_weather_forecast (utcoffset env) (http_forecast env) self l days u) =
          Inl (Exception (''Weather API error: '' @ get_default msg' ''Unknown error'')) \<and>
        fst (get_weather_forecast env l days u s (Some ctx) store) =
          Inr (Error (''Weather service error: Weather API error: '' @
                      get_default msg' ''Unknown error'')) \<and>
        (\<forall>m. fst (get_weather_forecast env l days u s (Some ctx) store) \<noteq>
               Inr (Error (''Location error: '' @ m))))"
proof (intro conjI impI)
  let ?rw = "\<lparr>url = base_url self @ ''/weather'',
      params = [(''q'', PStr l), (''appid'', PStr (api_key self)), (''units'', PStr u)]\<rparr>"
  let ?rf = "\<lparr>url = base_url self @ ''/forecast'',
      params = [(''q'', PStr l), (''appid'', PStr (api_key self)), (''units'', PStr u),
                (''cnt'', PInt (min (days * 8) 40))]\<rparr>"
  {
    assume "\<forall>req. \<exists>r. http_weather env req = Get_responds r \<and> status r = 404"
    then obtain r where "http_weather env ?rw = Get_responds r" "status r = 404" by blast
    then have "fetch (http_weather env ?rw) l (format_current_weather (utcoffset env)) =
        Inl (ValueError (''Location '' @ [CHR 0x27] @ l @ [CHR 0x27] @ '' not found''))"
      by (simp add: fetch_404)
    from get_current_weather_fetch_raises [OF assms(1) this, of s]
    have a: "fst (service_get_current_weather (utcoffset env) (http_weather env) self l u) =
          Inl (ValueError (''Location '' @ [CHR 0x27] @ l @ [CHR 0x27] @ '' not found''))"
      and b: "fst (get_current_weather env l u s (Some ctx) store) =
          Inr (Error (''Location error: Location '' @ [CHR 0x27] @ l @ [CHR 0x27] @
                      '' not found''))"
      by simp_all
    from a show "fst (service_get_current_weather (utcoffset env) (http_weather env) self l u) =
          Inl (ValueError (''Location '' @ [CHR 0x27] @ l @ [CHR 0x27] @ '' not found''))" .
    from b show "fst (get_current_weather env l u s (Some ctx) store) =
          Inr (Error (''Location error: Location '' @ [CHR 0x27] @ l @ [CHR 0x27] @
                      '' not found''))" .
    show "\<forall>m. fst (get_current_weather env l u s (Some ctx) store) \<noteq>
               Inr (Error (''Weather service error: '' @ m))"
      by (simp add: b)
  }
  {
    assume "\<forall>req. \<exists>r. http_forecast env req = Get_responds r \<and> status r = 404"
    then obtain r where "http_forecast env ?rf = Get_responds r" "status r = 404" by blast
    then have "fetch (http_forecast env ?rf) l
        (\<lambda>data. format_forecast_data (utcoffset env) data days) =
        Inl (ValueError (''Location '' @ [CHR 0x27] @ l @ [CHR 0x27] @ '' not found''))"
      by (simp add: fetch_404)
    from get_weather_forecast_fetch_raises [OF assms(1,2,3) this, of s]
    have a: "fst (service_get_weather_forecast (utcoffset env) (http_forecast env) self l days u) =
          Inl (ValueError (''Location '' @ [CHR 0x27] @ l @ [CHR 0x27] @ '' not found''))"
      and b: "fst (get_weather_forecast env l days u s (Some ctx) store) =
          Inr (Error (''Location error: Location '' @ [CHR 0x27] @ l @ [CHR 0x27] @
                      '' not found''))"
      by simp_all
    from a show "fst (service_get_weather_forecast (utcoffset env) (http_forecast env) self l
          days u) =
          Inl (ValueError (''Location '' @ [CHR 0x27] @ l @ [CHR 0x27] @ '' not found''))" .
    from b show "fst (get_weather_forecast env l days u s (Some ctx) store) =
          Inr (Error (''Location error: Location '' @ [CHR 0x27] @ l @ [CHR 0x27] @
                      '' not found''))" .
    show "\<forall>m. fst (get_weather_forecast env l days u s (Some ctx) store) \<noteq>
               Inr (Error (''Weather service error: '' @ m))"
      by (simp add: b)
  }
  {
    assume "\<forall>req. \<exists>r d. http_weather env req = Get_responds r \<and> status r \<noteq> 200 \<and>
                status r \<noteq> 404 \<and> json r = Inr d \<and> message d = msg"
    then obtain r d where "http_weather env ?rw = Get_responds r" "status r \<noteq> 200"
      "status r \<noteq> 404" "json r = Inr d" "message d = msg" by blast
    then have "fetch (http_weather env ?rw) l (format_current_weather (utcoffset env)) =
        Inl (Exception (''Weather API error: '' @ get_default msg ''Unknown error''))"
      by (simp add: fetch_upstream)
    from get_current_weather_fetch_raises [OF assms(1) this, of s]
    have a: "fst (service_get_current_weather (utcoffset env) (http_weather env) self l u) =
          Inl (Exception (''Weather API error: '' @ get_default msg ''Unknown error''))"
      and b: "fst (get_current_weather env l u s (Some ctx) store) =
          Inr (Error (''Weather service error: Weather API error: '' @
                      get_default msg ''Unknown error''))"
      by simp_all
    from a show "fst (service_get_current_weather (utcoffset env) (http_weather env) self l u) =
          Inl (Exception (''Weather API error: '' @ get_default msg ''Unknown error''))" .
    from b show "fst (get_current_weather env l u s (Some ctx) store) =
          Inr (Error (''Weather service error: Weather API error: '' @
                      get_default msg ''Unknown error''))" .
    show "\<forall>m. fst (get_current_weather env l u s (Some ctx) store) \<noteq>
               Inr (Error (''Location error: '' @ m))"
      by (simp add: b)
  }
  {
    assume "\<forall>req. \<exists>r d. http_forecast env req = Get_responds r \<and> status r \<noteq> 200 \<and>
                status r \<noteq> 404 \<and> json r = Inr d \<and> message d = msg'"
    then obtain r d where "http_forecast env ?rf = Get_responds r" "status r \<noteq> 200"
      "status r \<noteq> 404" "json r = Inr d" "message d = msg'" by blast
    then have "fetch (http_forecast env ?rf) l
        (\<lambda>data. format_forecast_data (utcoffset env) data days) =
        Inl (Exception (''Weather API error: '' @ get_default msg' ''Unknown error''))"
      by (simp add: fetch_upstream)
    from get_weather_forecast_fetch_raises [OF assms(1,2,3) this, of s]
    have a: "fst (service_get_weather_forecast (utcoffset env) (http_forecast env) self l days u) =
          Inl (Exception (''Weather API error: '' @ get_default msg' ''Unknown error''))"
      and b: "fst (get_weather_forecast env l days u s (Some ctx) store) =
          Inr (Error (''Weather service error: Weather API error: '' @
                      get_default msg' ''Unknown error''))"
      by simp_all
    from a show "fst (service_get_weather_forecast (utcoffset env) (http_forecast env) self l
          days u) =
          Inl (Exception (''Weather API error: '' @ get_default msg' ''Unknown error''))" .
    from b show "fst (get_weather_forecast env l days u s (Some ctx) store) =
          Inr (Error (''Weather service error: Weather API error: '' @
                      get_default msg' ''Unknown error''))" .
    show "\<forall>m. fst (get_weather_forecast env l days u s (Some ctx) store) \<noteq>
               Inr (Error (''Location error: '' @ m))"
      by (simp add: b)
  }
qed

theorem not_found_and_upstream_errors_witness:
  "fst (service_get_current_weather utc (http_weather (example_environment 404 (Inr None)))
          (WeatherService ''key'' ''http://api'') ''Atlantis'' ''metric'') =
     Inl (ValueError (''Location '' @ [CHR 0x27] @ ''Atlantis'' @ [CHR 0x27] @ '' not found'')) \<and>
   fst (get_current_weather (example_environment 404 (Inr None)) ''Atlantis'' ''metric'' False
          (Some example_context) example_store) =
     Inr (Error (''Location error: Location '' @ [CHR 0x27] @ ''Atlantis'' @ [CHR 0x27] @
                 '' not found'')) \<and>
   fst (get_weather_forecast (example_environment 404 (Inr None)) ''Atlantis'' 3 ''metric'' False
          (Some example_context) example_store) =
     Inr (Error (''Location error: Location '' @ [CHR 0x27] @ ''Atlantis'' @ [CHR 0x27] @
                 '' not found'')) \<and>
   fst (service_get_current_weather utc (http_weather (example_environment 500 (Inr None)))
          (WeatherService ''key'' ''http://api'') ''Atlantis'' ''metric'') =
     Inl (Exception ''Weather API error: Unknown error'') \<and>
   fst (get_current_weather (example_environment 500 (Inr None)) ''Atlantis'' ''metric'' False
          (Some example_context) example_store) =
     Inr (Error ''Weather service error: Weather API error: Unknown error'') \<and>
   fst (get_weather_forecast (example_environment 500 (Inr None)) ''Atlantis'' 3 ''metric'' False
          (Some example_context) example_store) =
     Inr (Error ''Weather service error: Weather API error: Unknown error'')"
  using not_found_and_upstream_errors [where ctx = example_context and store = example_store
      and h = 0 and self = "WeatherService ''key'' ''http://api''"
      and evs = "[State_get 0 ''weather_service'']" and days = 3
      and env = "example_environment 404 (Inr None)" and l = "''Atlantis''"
      and u = "''metric''" and s = False and msg = None and msg' = None]
    not_found_and_upstream_errors [where ctx = example_context and store = example_store
      and h = 0 and self = "WeatherService ''key'' ''http://api''"
      and evs = "[State_get 0 ''weather_service'']" and days = 3
      and env = "example_environment 500 (Inr None)" and l = "''Atlantis''"
      and u = "''metric''" and s = False and msg = None and msg' = None]
  by (simp add: example_lookup example_environment_def get_default_def)

subsection \<open>Successful calls\<close>

text \<open>What a success dictionary of either tool tells about the call.\<close>

lemma get_weather_forecast_success:
  assumes "fst (get_weather_forecast env l days u s tc store) = Inr (Success loc summary data art)"
  obtains ctx h self evs fetched self' reqs where
    "tc = Some ctx" "1 \<le> days" "days \<le> 5"
    "lookup_weather_service ctx store = (Inr (Inr (h, self)), evs)"
    "service_get_weather_forecast (utcoffset env) (http_forecast env) self l days u =
       (Inr data, self', reqs)"
    "create_forecast_summary env data = Inr summary"
    "loc = forecast_location data"
    "art = (if s then Some (fst (save_weather_artifact env (Forecast_report data)
                                   (''forecast_'' @ l @ ''_'' @ str_int days @ ''day'')))
            else None)"
proof (cases tc)
  case None
  with assms show ?thesis by (simp add: get_weather_forecast_def)
next
  case (Some ctx)
  show ?thesis
  proof (cases "1 \<le> days \<and> days \<le> 5")
    case False
    with assms Some show ?thesis by (simp add: get_weather_forecast_def)
  next
    case True
    then have d: "1 \<le> days" "days \<le> 5" by simp_all
    show ?thesis
    proof (cases ctx store rule: lookup_cases)
      case (raises e evs)
      with assms show ?thesis by (simp add: Some get_weather_forecast_raises d)
    next
      case (early msg evs)
      with assms show ?thesis by (simp add: Some get_weather_forecast_early d)
    next
      case (found h self evs)
      obtain fetched self' reqs where sv:
        "service_get_weather_forecast (utcoffset env) (http_forecast env) self l days u =
           (fetched, self', reqs)"
        by (cases "service_get_weather_forecast (utcoffset env) (http_forecast env) self l days u")
      note eq = get_weather_forecast_found [OF d found sv, of s]
      show ?thesis
      proof (cases fetched)
        case (Inl e)
        with eq assms Some show ?thesis by simp
      next
        case (Inr fd)
        show ?thesis
        proof (cases "create_forecast_summary env fd")
          case (Inl e)
          with eq assms Some Inr show ?thesis by simp
        next
          case inner: (Inr sm)
          from eq assms Some Inr inner have "fd = data" "sm = summary"
            "loc = forecast_location data"
            "art = (if s then Some (fst (save_weather_artifact env (Forecast_report data)
                                   (''forecast_'' @ l @ ''_'' @ str_int days @ ''day'')))
                    else None)"
            by auto
          with that [OF Some d found] sv Inr inner show ?thesis by simp
        qed
      qed
    qed
  qed
qed

lemma get_current_weather_success:
  assumes "fst (get_current_weather env l u s tc store) = Inr (Success loc summary data art)"
  obtains ctx h self evs self' reqs where
    "tc = Some ctx"
    "lookup_weather_service ctx store = (Inr (Inr (h, self)), evs)"
    "service_get_current_weather (utcoffset env) (http_weather env) self l u =
       (Inr data, self', reqs)"
    "summary = create_weather_summary env data"
    "loc = location data"
    "art = (if s then Some (fst (save_weather_artifact env (Current_report data)
                                   (''current_weather_'' @ l)))
            else None)"
proof (cases tc)
  case None
  with assms show ?thesis by (simp add: get_current_weather_def)
next
  case (Some ctx)
  show ?thesis
  proof (cases ctx store rule: lookup_cases)
    case (raises e evs)
    with assms show ?thesis by (simp add: Some get_current_weather_raises)
  next
    case (early msg evs)
    with assms show ?thesis by (simp add: Some get_current_weather_early)
  next
    case (found h self evs)
    obtain fetched self' reqs where sv:
      "service_get_current_weather (utcoffset env) (http_weather env) self l u =
         (fetched, self', reqs)"
      by (cases "service_get_current_weather (utcoffset env) (http_weather env) self l u")
    note eq = get_current_weather_found [OF found sv, of s]
    show ?thesis
    proof (cases fetched)
      case (Inl e)
      with eq assms Some show ?thesis by simp
    next
      case (Inr wd)
      from eq assms Some Inr have "wd = data" "summary = create_weather_summary env data"
        "loc = location data"
        "art = (if s then Some (fst (save_weather_artifact env (Current_report data)
                                   (''current_weather_'' @ l)))
            else None)"
        by auto
      with that [OF Some found] sv Inr show ?thesis by simp
    qed
  qed
qed

lemma save_weather_artifact_raises:
  "save_artifact_with_metadata env (base @ ''_'' @ now_stamp env @ ''.json'') content = Inl e \<Longrightarrow>
   fst (save_weather_artifact env content base) =
     Artifact_error (''Failed to save artifact: '' @ py_str e)"
  by (simp add: save_weather_artifact_def Let_def)

subsection \<open>The example call\<close>

text \<open>The two tools on the example environment, context and host state.\<close>

lemma title_example: "title ''clear sky'' = ''Clear Sky''"
  by code_simp

lemma example_format_forecast:
  "format_forecast_data utc example_forecast 1 = Inr example_daily"
  by (simp add: format_forecast_data_def example_forecast_def example_daily_def getitem_def
      aggregate_daily_def slice_to_def sample_at_def item_dt_def utc_def
      fromtimestamp_date_def fromtimestamp_hour_def local_seconds_def
      aggregate_daily_forecast_def item_main_temp_def py_min_def py_max_def noon_distance_def
      first_item_def item_description_title_def item_main_humidity_def item_wind_speed_def
      get_default_def title_example
      city_location_def Let_def)

lemma example_format_current:
  "format_current_weather utc example_current = Inr example_weather"
  by (simp add: format_current_weather_def example_current_def example_weather_def getitem_def
      item_dt_def utc_def local_seconds_def item_main_temp_def item_main_feels_like_def
      item_main_humidity_def item_main_pressure_def item_wind_deg_def
      first_item_def item_description_title_def item_wind_speed_def
      get_default_def title_example)

lemma example_forecast_service:
  "service_get_weather_forecast utc (http_forecast (example_environment 200 saved))
     (WeatherService ''key'' ''http://api'') ''London'' 1 ''metric'' =
   (Inr example_daily, get_session (WeatherService ''key'' ''http://api''),
    [\<lparr>url = ''http://api/forecast'',
      params = [(''q'', PStr ''London''), (''appid'', PStr ''key''), (''units'', PStr ''metric''),
                (''cnt'', PInt 8)]\<rparr>])"
  by (simp add: service_get_weather_forecast_def example_environment_def fetch_def Let_def
      example_format_forecast WeatherService_def)

lemma example_current_service:
  "service_get_current_weather utc (http_weather (example_environment 200 saved))
     (WeatherService ''key'' ''http://api'') ''London'' units =
   (Inr example_weather, get_session (WeatherService ''key'' ''http://api''),
    [\<lparr>url = ''http://api/weather'',
      params = [(''q'', PStr ''London''), (''appid'', PStr ''key''), (''units'', PStr units)]\<rparr>])"
  by (simp add: service_get_current_weather_def example_environment_def fetch_def Let_def
      example_format_current WeatherService_def)

lemma example_environment_simps:
  "utcoffset (example_environment code saved) = utc"
  "save_artifact_with_metadata (example_environment code saved) = (\<lambda>filename content. saved)"
  "now_stamp (example_environment code saved) = ''20240101_000000''"
  "str_number (example_environment code saved) = (\<lambda>x. ''n'')"
  "format_1f (example_environment code saved) = (\<lambda>x. ''n.n'')"
  "format_0f (example_environment code saved) = (\<lambda>x. ''n'')"
  "strftime_date (example_environment code saved) = (\<lambda>d. ''Monday, January 01'')"
  by (simp_all add: example_environment_def)

lemma example_forecast_summary:
  "create_forecast_summary (example_environment code saved) example_daily =
     Inr (''Weather forecast for London, GB:'' @ newline @ newline @
          bullet @ '' Monday, January 01: Clear Sky'' @ newline @
          ''  High: n.n'' @ degrees_celsius @ '', Low: n.n'' @ degrees_celsius)"
  by (simp add: create_forecast_summary_def example_daily_def example_environment_simps
      strip_def is_space_def newline_def bullet_def degrees_celsius_def)

lemma example_forecast_run:
  "fst (get_weather_forecast (example_environment 200 saved) ''London'' 1 ''metric'' s
          (Some example_context) example_store) =
   Inr (Success ''London, GB''
          (''Weather forecast for London, GB:'' @ newline @ newline @
           bullet @ '' Monday, January 01: Clear Sky'' @ newline @
           ''  High: n.n'' @ degrees_celsius @ '', Low: n.n'' @ degrees_celsius)
          example_daily
          (if s then Some (fst (save_weather_artifact (example_environment 200 saved)
                                  (Forecast_report example_daily)
                                  (''forecast_'' @ ''London'' @ ''_'' @ str_int 1 @ ''day'')))
           else None))"
  using get_weather_forecast_found [of 1 example_context example_store 0
      "WeatherService ''key'' ''http://api''" "[State_get 0 ''weather_service'']"
      "example_environment 200 saved" "''London''" "''metric''" "Inr example_daily"
      "get_session (WeatherService ''key'' ''http://api'')"
      "[\<lparr>url = ''http://api/forecast'',
      params = [(''q'', PStr ''London''), (''appid'', PStr ''key''), (''units'', PStr ''metric''),
                (''cnt'', PInt 8)]\<rparr>]" s]
    example_lookup example_forecast_service [of saved]
    example_forecast_summary [of 200 saved]
  by (simp add: example_environment_simps example_daily_def)

lemma example_current_run:
  "fst (get_current_weather (example_environment 200 saved) ''London'' units s
          (Some example_context) example_store) =
   Inr (Success ''London, GB''
          (create_weather_summary (example_environment 200 saved) example_weather)
          example_weather
          (if s then Some (fst (save_weather_artifact (example_environment 200 saved)
                                  (Current_report example_weather)
                                  (''current_weather_'' @ ''London'')))
           else None))"
  using get_current_weather_found [of example_context example_store 0
      "WeatherService ''key'' ''http://api''" "[State_get 0 ''weather_service'']"
      "example_environment 200 saved" "''London''" units "Inr example_weather"
      "get_session (WeatherService ''key'' ''http://api'')"
      "[\<lparr>url = ''http://api/weather'',
      params = [(''q'', PStr ''London''), (''appid'', PStr ''key''), (''units'', PStr units)]\<rparr>]" s]
    example_lookup example_current_service [of saved units]
  by (simp add: example_environment_simps example_weather_def)

subsection \<open>A failing artifact save\<close>

lemma save_weather_artifact_returns:
  "save_artifact_with_metadata env (base @ ''_'' @ now_stamp env @ ''.json'') content = Inr result \<Longrightarrow>
   fst (save_weather_artifact env content base) =
     Artifact (base @ ''_'' @ now_stamp env @ ''.json'') (get_default result ''success'')"
  by (simp add: save_weather_artifact_def Let_def)

lemma get_weather_forecast_saved:
  assumes "fst (get_weather_forecast env l days u False tc store) =
             Inr (Success loc summary data None)"
  shows "fst (get_weather_forecast env l days u True tc store) =
           Inr (Success loc summary data
                  (Some (fst (save_weather_artifact env (Forecast_report data)
                                (''forecast_'' @ l @ ''_'' @ str_int days @ ''day'')))))"
  using assms
proof (rule get_weather_forecast_success)
  fix ctx h self evs self' reqs
  assume "tc = Some ctx" "1 \<le> days" "days \<le> 5"
    "lookup_weather_service ctx store = (Inr (Inr (h, self)), evs)"
    "service_get_weather_forecast (utcoffset env) (http_forecast env) self l days u =
       (Inr data, self', reqs)"
    "create_forecast_summary env data = Inr summary"
    "loc = forecast_location data"
  then show ?thesis
    using get_weather_forecast_found [of days ctx store h self evs env l u "Inr data" self' reqs True]
    by simp
qed

lemma get_current_weather_saved:
  assumes "fst (get_current_weather env l u False tc store) =
             Inr (Success loc summary data None)"
  shows "fst (get_current_weather env l u True tc store) =
           Inr (Success loc summary data
                  (Some (fst (save_weather_artifact env (Current_report data)
                                (''current_weather_'' @ l)))))"
  using assms
proof (rule get_current_weather_success)
  fix ctx h self evs self' reqs
  assume "tc = Some ctx"
    "lookup_weather_service ctx store = (Inr (Inr (h, self)), evs)"
    "service_get_current_weather (utcoffset env) (http_weather env) self l u =
       (Inr data, self', reqs)"
    "summary = create_weather_summary env data"
    "loc = location data"
  then show ?thesis
    using get_current_weather_found [of ctx store h self evs env l u "Inr data" self' reqs True]
    by simp
qed

lemma str_int_1: "str_int 1 = ''1''"
  by code_simp

text \<open>A save can fail in two ways: \<open>save_artifact_with_metadata\<close> raises, or it returns a
  dictionary whose \<open>status\<close> is not \<open>success\<close>. In the second case
  \<open>_save_weather_artifact\<close> passes that status on beside the file name: on the example
  call with a helper that returns the status \<open>error\<close>, the nested dictionary is
  \<^verbatim>\<open>{"filename": ..., "status": "error"}\<close>, with no message.\<close>

theorem artifact_failure_returned_status:
  "fst (get_weather_forecast (example_environment 200 (Inr (Some ''error''))) ''London'' 1
          ''metric'' True (Some example_context) example_store) =
     Inr (Success ''London, GB''
            (''Weather forecast for London, GB:'' @ newline @ newline @
             bullet @ '' Monday, January 01: Clear Sky'' @ newline @
             ''  High: n.n'' @ degrees_celsius @ '', Low: n.n'' @ degrees_celsius)
            example_daily
            (Some (Artifact ''forecast_London_1day_20240101_000000.json'' ''error'')))"
  using example_forecast_run [of "Inr (Some ''error'')" True]
  by (simp add: save_weather_artifact_def Let_def example_environment_simps get_default_def
      str_int_1)

text \<open>Claim C6, with the two ways of failing told apart. Take a call with
  \<open>save_to_file = False\<close> that returns a success dictionary. The same call with
  \<open>save_to_file = True\<close> still returns \<open>status = success\<close> with the same \<open>location\<close>,
  \<open>summary\<close> and \<open>data\<close>, whatever the save does. If the host's
  \<open>save_artifact_with_metadata\<close> raises for the file of that call, the failure shows only
  as the nested dictionary
  \<^verbatim>\<open>{"status": "error", "message": "Failed to save artifact: ..."}\<close> under \<open>artifact\<close>. If it
  returns a dictionary, the nested dictionary is the file name with the returned
  \<open>status\<close> (\<open>success\<close> when the dictionary has none), so a returned failing status shows
  as that status and without a message. This holds for both tools.\<close>

theorem artifact_failure_keeps_success:
  "(fst (get_weather_forecast env l days u False tc store) = Inr (Success loc summary data None) \<and>
    save_artifact_with_metadata env
      ((''forecast_'' @ l @ ''_'' @ str_int days @ ''day'') @ ''_'' @ now_stamp env @ ''.json'')
      (Forecast_report data) = Inl e \<longrightarrow>
    fst (get_weather_forecast env l days u True tc store) =
      Inr (Success loc summary data
             (Some (Artifact_error (''Failed to save artifact: '' @ py_str e))))) \<and>
   (fst (get_weather_forecast env l days u False tc store) = Inr (Success loc summary data None) \<and>
    save_artifact_with_metadata env
      ((''forecast_'' @ l @ ''_'' @ str_int days @ ''day'') @ ''_'' @ now_stamp env @ ''.json'')
      (Forecast_report data) = Inr result \<longrightarrow>
    fst (get_weather_forecast env l days u True tc store) =
      Inr (Success loc summary data
             (Some (Artifact
                ((''forecast_'' @ l @ ''_'' @ str_int days @ ''day'') @ ''_'' @ now_stamp env @
                 ''.json'')
                (get_default result ''success''))))) \<and>
   (fst (get_current_weather env l u False tc store) = Inr (Success loc' summary' data' None) \<and>
    save_artifact_with_metadata env
      ((''current_weather_'' @ l) @ ''_'' @ now_stamp env @ ''.json'')
      (Current_report data') = Inl e' \<longrightarrow>
    fst (get_current_weather env l u True tc store) =
      Inr (Success loc' summary' data'
             (Some (Artifact_error (''Failed to save artifact: '' @ py_str e'))))) \<and>
   (fst (get_current_weather env l u False tc store) = Inr (Success loc' summary' data' None) \<and>
    save_artifact_with_metadata env
      ((''current_weather_'' @ l) @ ''_'' @ now_stamp env @ ''.json'')
      (Current_report data') = Inr result' \<longrightarrow>
    fst (get_current_weather env l u True tc store) =
      Inr (Success loc' summary' data'
             (Some (Artifact
                ((''current_weather_'' @ l) @ ''_'' @ now_stamp env @ ''.json'')
                (get_default result' ''success'')))))"
proof (intro conjI impI)
  assume a: "fst (get_weather_forecast env l days u False tc store) =
      Inr (Success loc summary data None) \<and>
    save_artifact_with_metadata env
      ((''forecast_'' @ l @ ''_'' @ str_int days @ ''day'') @ ''_'' @ now_stamp env @ ''.json'')
      (Forecast_report data) = Inl e"
  from a have "fst (save_weather_artifact env (Forecast_report data)
      (''forecast_'' @ l @ ''_'' @ str_int days @ ''day'')) =
      Artifact_error (''Failed to save artifact: '' @ py_str e)"
    by (intro save_weather_artifact_raises) (rule conjunct2)
  with get_weather_forecast_saved [of env l days u tc store loc summary data] a
  show "fst (get_weather_forecast env l days u True tc store) =
      Inr (Success loc summary data
             (Some (Artifact_error (''Failed to save artifact: '' @ py_str e))))"
    by simp
next
  assume a: "fst (get_weather_forecast env l days u False tc store) =
      Inr (Success loc summary data None) \<and>
    save_artifact_with_metadata env
      ((''forecast_'' @ l @ ''_'' @ str_int days @ ''day'') @ ''_'' @ now_stamp env @ ''.json'')
      (Forecast_report data) = Inr result"
  from a have "fst (save_weather_artifact env (Forecast_report data)
      (''forecast_'' @ l @ ''_'' @ str_int days @ ''day'')) =
      Artifact ((''forecast_'' @ l @ ''_'' @ str_int days @ ''day'') @ ''_'' @ now_stamp env @
                 ''.json'') (get_default result ''success'')"
    by (intro save_weather_artifact_returns) (rule conjunct2)
  with get_weather_forecast_saved [of env l days u tc store loc summary data] a
  show "fst (get_weather_forecast env l days u True tc store) =
      Inr (Success loc summary data
             (Some (Artifact
                ((''forecast_'' @ l @ ''_'' @ str_int days @ ''day'') @ ''_'' @ now_stamp env @
                 ''.json'')
                (get_default result ''success''))))"
    by simp
next
  assume a: "fst (get_current_weather env l u False tc store) =
      Inr (Success loc' summary' data' None) \<and>
    save_artifact_with_metadata env
      ((''current_weather_'' @ l) @ ''_'' @ now_stamp env @ ''.json'')
      (Current_report data') = Inl e'"
  from a have "fst (save_weather_artifact env (Current_report data')
      (''current_weather_'' @ l)) =
      Artifact_error (''Failed to save artifact: '' @ py_str e')"
    by (intro save_weather_artifact_raises) (rule conjunct2)
  with get_current_weather_saved [of env l u tc store loc' summary' data'] a
  show "fst (get_current_weather env l u True tc store) =
      Inr (Success loc' summary' data'
             (Some (Artifact_error (''Failed to save artifact: '' @ py_str e'))))"
    by simp
next
  assume a: "fst (get_current_weather env l u False tc store) =
      Inr (Success loc' summary' data' None) \<and>
    save_artifact_with_metadata env
      ((''current_weather_'' @ l) @ ''_'' @ now_stamp env @ ''.json'')
      (Current_report data') = Inr result'"
  from a have "fst (save_weather_artifact env (Current_report data')
      (''current_weather_'' @ l)) =
      Artifact ((''current_weather_'' @ l) @ ''_'' @ now_stamp env @ ''.json'')
        (get_default result' ''success'')"
    by (intro save_weather_artifact_returns) (rule conjunct2)
  with get_current_weather_saved [of env l u tc store loc' summary' data'] a
  show "fst (get_current_weather env l u True tc store) =
      Inr (Success loc' summary' data'
             (Some (Artifact
                ((''current_weather_'' @ l) @ ''_'' @ now_stamp env @ ''.json'')
                (get_default result' ''success''))))"
    by simp
qed

theorem artifact_failure_keeps_success_witness:
  "fst (get_weather_forecast (example_environment 200 (Inl (Exception ''disk full''))) ''London'' 1
          ''metric'' True (Some example_context) example_store) =
     Inr (Success ''London, GB''
            (''Weather forecast for London, GB:'' @ newline @ newline @
             bullet @ '' Monday, January 01: Clear Sky'' @ newline @
             ''  High: n.n'' @ degrees_celsius @ '', Low: n.n'' @ degrees_celsius)
            example_daily (Some (Artifact_error ''Failed to save artifact: disk full''))) \<and>
   fst (get_current_weather (example_environment 200 (Inl (Exception ''disk full''))) ''London''
          ''metric'' True (Some example_context) example_store) =
     Inr (Success ''London, GB''
            (create_weather_summary (example_environment 200 (Inl (Exception ''disk full'')))
               example_weather)
            example_weather (Some (Artifact_error ''Failed to save artifact: disk full''))) \<and>
   fst (get_weather_forecast (example_environment 200 (Inr (Some ''error''))) ''London'' 1
          ''metric'' True (Some example_context) example_store) =
     Inr (Success ''London, GB''
            (''Weather forecast for London, GB:'' @ newline @ newline @
             bullet @ '' Monday, January 01: Clear Sky'' @ newline @
             ''  High: n.n'' @ degrees_celsius @ '', Low: n.n'' @ degrees_celsius)
            example_daily
            (Some (Artifact ''forecast_London_1day_20240101_000000.json'' ''error''))) \<and>
   fst (get_current_weather (example_environment 200 (Inr None)) ''London''
          ''metric'' True (Some example_context) example_store) =
     Inr (Success ''London, GB''
            (create_weather_summary (example_environment 200 (Inr None)) example_weather)
            example_weather
            (Some (Artifact ''current_weather_London_20240101_000000.json'' ''success'')))"
  using artifact_failure_keeps_success [where env = "example_environment 200 (Inl (Exception ''disk full''))"
      and l = "''London''" and days = 1 and u = "''metric''" and tc = "Some example_context"
      and store = example_store and loc = "''London, GB''"
      and summary = "''Weather forecast for London, GB:'' @ newline @ newline @
             bullet @ '' Monday, January 01: Clear Sky'' @ newline @
             ''  High: n.n'' @ degrees_celsius @ '', Low: n.n'' @ degrees_celsius"
      and data = example_daily and e = "Exception ''disk full''" and loc' = "''London, GB''"
      and summary' = "create_weather_summary (example_environment 200 (Inl (Exception ''disk full'')))
               example_weather"
      and data' = example_weather and e' = "Exception ''disk full''"]
    artifact_failure_keeps_success [where env = "example_environment 200 (Inr (Some ''error''))"
      and l = "''London''" and days = 1 and u = "''metric''" and tc = "Some example_context"
      and store = example_store and loc = "''London, GB''"
      and summary = "''Weather forecast for London, GB:'' @ newline @ newline @
             bullet @ '' Monday, January 01: Clear Sky'' @ newline @
             ''  High: n.n'' @ degrees_celsius @ '', Low: n.n'' @ degrees_celsius"
      and data = example_daily and result = "Some ''error''"]
    artifact_failure_keeps_success [where env = "example_environment 200 (Inr None)"
      and l = "''London''" and u = "''metric''" and tc = "Some example_context"
      and store = example_store and loc' = "''London, GB''"
      and summary' = "create_weather_summary (example_environment 200 (Inr None)) example_weather"
      and data' = example_weather and result' = None]
    example_forecast_run [of "Inl (Exception ''disk full'')" False]
    example_current_run [of "Inl (Exception ''disk full'')" "''metric''" False]
    example_forecast_run [of "Inr (Some ''error'')" False]
    example_current_run [of "Inr None" "''metric''" False]
  by (simp add: example_environment_simps get_default_def str_int_1)

subsection \<open>The unit label of the summary\<close>




subsection \<open>The request counter\<close>

text \<open>A tool call leaves the host state as it was or replaces the service entry of one
  host component by a service object.\<close>

lemma get_current_weather_store:
  "fst (snd (get_current_weather env l u s tc store)) = store \<or>
   (\<exists>h sv. fst (snd (get_current_weather env l u s tc store)) =
      set_agent_specific_state store h ''weather_service'' (Service sv))"
proof (cases tc)
  case None
  then show ?thesis by (simp add: get_current_weather_def)
next
  case (Some ctx)
  show ?thesis
  proof (cases ctx store rule: lookup_cases)
    case (raises e evs)
    then show ?thesis by (simp add: Some get_current_weather_raises)
  next
    case (early msg evs)
    then show ?thesis by (simp add: Some get_current_weather_early)
  next
    case (found h self evs)
    obtain fetched self' reqs where
      "service_get_current_weather (utcoffset env) (http_weather env) self l u =
         (fetched, self', reqs)"
      by (cases "service_get_current_weather (utcoffset env) (http_weather env) self l u")
    from get_current_weather_found [OF found this, of s]
    have "fst (snd (get_current_weather env l u s tc store)) =
        set_agent_specific_state store h ''weather_service'' (Service self')"
      by (simp only: Some fst_conv snd_conv)
    then show ?thesis by blast
  qed
qed

lemma get_weather_forecast_store:
  "fst (snd (get_weather_forecast env l days u s tc store)) = store \<or>
   (\<exists>h sv. fst (snd (get_weather_forecast env l days u s tc store)) =
      set_agent_specific_state store h ''weather_service'' (Service sv))"
proof (cases tc)
  case None
  then show ?thesis by (simp add: get_weather_forecast_def)
next
  case (Some ctx)
  show ?thesis
  proof (cases "1 \<le> days \<and> days \<le> 5")
    case False
    then show ?thesis by (simp add: Some get_weather_forecast_def)
  next
    case True
    then have d: "1 \<le> days" "days \<le> 5" by simp_all
    show ?thesis
    proof (cases ctx store rule: lookup_cases)
      case (raises e evs)
      then show ?thesis by (simp add: Some get_weather_forecast_raises d)
    next
      case (early msg evs)
      then show ?thesis by (simp add: Some get_weather_forecast_early d)
    next
      case (found h self evs)
      obtain fetched self' reqs where
        "service_get_weather_forecast (utcoffset env) (http_forecast env) self l days u =
           (fetched, self', reqs)"
        by (cases "service_get_weather_forecast (utcoffset env) (http_forecast env) self l days u")
      from get_weather_forecast_found [OF d found this, of s]
      have "fst (snd (get_weather_forecast env l days u s tc store)) =
          set_agent_specific_state store h ''weather_service'' (Service self')"
        by (simp only: Some fst_conv snd_conv)
      then show ?thesis by blast
    qed
  qed
qed

text \<open>The agent state a tool call keeps: the request count is 0 and the service entry
  holds a service object.\<close>

lemma run_tool_call_store:
  "run_tool_call c store = store \<or>
   (\<exists>h sv. run_tool_call c store =
      set_agent_specific_state store h ''weather_service'' (Service sv))"
proof -
  obtain env tc call where c: "c = (env, tc, call)" by (cases c)
  show ?thesis
  proof (cases call)
    case (Current_weather_call l u s)
    with c get_current_weather_store [of env l u s tc store] show ?thesis by simp
  next
    case (Weather_forecast_call l d u s)
    with c get_weather_forecast_store [of env l d u s tc store] show ?thesis by simp
  qed
qed

lemma run_tool_call_keeps:
  assumes "store h ''weather_requests_count'' = Some (Number 0)"
    and "\<exists>sv. store h ''weather_service'' = Some (Service sv)"
  shows "run_tool_call c store h ''weather_requests_count'' = Some (Number 0) \<and>
         (\<exists>sv. run_tool_call c store h ''weather_service'' = Some (Service sv))"
  using run_tool_call_store [of c store] assms
  by (auto simp: set_agent_specific_state_def)

lemma run_tool_calls_keep:
  assumes "store h ''weather_requests_count'' = Some (Number 0)"
    and "\<exists>sv. store h ''weather_service'' = Some (Service sv)"
  shows "run_tool_calls calls store h ''weather_requests_count'' = Some (Number 0) \<and>
         (\<exists>sv. run_tool_calls calls store h ''weather_service'' = Some (Service sv))"
  using assms
proof (induction calls arbitrary: store)
  case Nil
  then show ?case by (simp add: run_tool_calls_def)
next
  case (Cons c calls)
  from run_tool_call_keeps [of store h c] Cons.prems
  have "run_tool_call c store h ''weather_requests_count'' = Some (Number 0)"
    "\<exists>sv. run_tool_call c store h ''weather_service'' = Some (Service sv)"
    by simp_all
  with Cons.IH [of "run_tool_call c store"] show ?case by (simp add: run_tool_calls_def)
qed

lemma initialize_weather_agent_state:
  "initialize_weather_agent h cfg store h ''weather_requests_count'' = Some (Number 0)"
  "initialize_weather_agent h cfg store h ''weather_service'' =
     Some (Service (WeatherService (config_api_key cfg) (config_base_url cfg)))"
  "initialize_weather_agent h cfg store h ''initialized_at'' = Some (Text ''2024-01-01T00:00:00Z'')"
  by (simp_all add: initialize_weather_agent_def set_agent_specific_state_def Let_def)

lemma cleanup_weather_agent_count:
  assumes "store h ''weather_requests_count'' = Some (Number 0)"
    and "store h ''weather_service'' = Some (Service sv)"
  shows "snd (cleanup_weather_agent None h store) = Some (Number 0) \<and>
         (snd (cleanup_weather_agent library_close h store) = None \<or>
          snd (cleanup_weather_agent library_close h store) = Some (Number 0)) \<and>
         fst (cleanup_weather_agent library_close h store) h ''weather_requests_count'' =
           Some (Number 0)"
proof -
  have c: "\<exists>sv'. close None sv = Inr sv'"
    by (simp add: close_def split: option.split)
  then have a: "snd (cleanup_weather_agent None h store) = Some (Number 0)"
    using assms
    by (auto simp: cleanup_weather_agent_def get_agent_specific_state_def
        set_agent_specific_state_def get_default_def)
  have b: "snd (cleanup_weather_agent library_close h store) = None \<or>
         snd (cleanup_weather_agent library_close h store) = Some (Number 0)"
    using assms
    by (cases "close library_close sv")
      (auto simp: cleanup_weather_agent_def get_agent_specific_state_def
        set_agent_specific_state_def get_default_def)
  have "fst (cleanup_weather_agent library_close h store) h ''weather_requests_count'' =
         Some (Number 0)"
    using assms
    by (cases "close library_close sv")
      (auto simp: cleanup_weather_agent_def get_agent_specific_state_def
        set_agent_specific_state_def get_default_def)
  with a b show ?thesis by (intro conjI)
qed

text \<open>Claim C10. \<open>initialize_weather_agent\<close> stores 0 under \<open>weather_requests_count\<close>;
  after any sequence of calls of the two tools, with any arguments, environments and
  tool contexts, the entry is still 0; and the cleanup reads 0 for its statistics line
  when closing the session succeeds (when the close raises, the line is skipped), and
  leaves the entry at 0.\<close>

theorem requests_count_stays_zero:
  "initialize_weather_agent h cfg store h ''weather_requests_count'' = Some (Number 0) \<and>
   run_tool_calls calls (initialize_weather_agent h cfg store) h ''weather_requests_count'' =
     Some (Number 0) \<and>
   snd (cleanup_weather_agent None h (run_tool_calls calls (initialize_weather_agent h cfg store))) =
     Some (Number 0) \<and>
   (snd (cleanup_weather_agent library_close h
           (run_tool_calls calls (initialize_weather_agent h cfg store))) = None \<or>
    snd (cleanup_weather_agent library_close h
           (run_tool_calls calls (initialize_weather_agent h cfg store))) = Some (Number 0)) \<and>
   fst (cleanup_weather_agent library_close h
          (run_tool_calls calls (initialize_weather_agent h cfg store))) h
     ''weather_requests_count'' = Some (Number 0)"
proof -
  let ?s = "run_tool_calls calls (initialize_weather_agent h cfg store)"
  have k: "?s h ''weather_requests_count'' = Some (Number 0)"
    "\<exists>sv. ?s h ''weather_service'' = Some (Service sv)"
    using run_tool_calls_keep [of "initialize_weather_agent h cfg store" h calls]
    by (simp_all add: initialize_weather_agent_state)
  then obtain sv where sv: "?s h ''weather_service'' = Some (Service sv)" by (elim exE)
  from cleanup_weather_agent_count [of ?s h sv library_close] k(1) sv
    initialize_weather_agent_state(1) [of h cfg store]
  show ?thesis by simp
qed

subsection \<open>The built-ins \<open>min\<close> and \<open>max\<close>\<close>

text \<open>\<open>min\<close> with a key returns the first element whose key is least: every element
  before it has a strictly greater key, every element after it a key that is not
  smaller.\<close>

lemma min_loop_first:
  assumes "\<forall>x\<in>set xs. key x = Inr (f x)"
  shows "\<exists>r. min_loop key best (f best) xs = Inr r \<and>
           ((r = best \<and> (\<forall>x\<in>set xs. f best \<le> f x)) \<or>
            (\<exists>pre post. xs = pre @ r # post \<and> f r < f best \<and>
               (\<forall>y\<in>set pre. f r < f y) \<and> (\<forall>y\<in>set post. f r \<le> f y)))"
  using assms
proof (induction xs arbitrary: best)
  case Nil
  then show ?case by simp
next
  case (Cons x xs)
  have kx: "key x = Inr (f x)" using Cons.prems by simp
  have rest: "\<forall>y\<in>set xs. key y = Inr (f y)" using Cons.prems by simp
  show ?case
  proof (cases "f x < f best")
    case True
    from Cons.IH [OF rest, of x] obtain r where
      r: "min_loop key x (f x) xs = Inr r" and
      d: "(r = x \<and> (\<forall>y\<in>set xs. f x \<le> f y)) \<or>
          (\<exists>pre post. xs = pre @ r # post \<and> f r < f x \<and>
               (\<forall>y\<in>set pre. f r < f y) \<and> (\<forall>y\<in>set post. f r \<le> f y))" by blast
    have step: "min_loop key best (f best) (x # xs) = Inr r"
      using r kx True by simp
    have "\<exists>pre post. x # xs = pre @ r # post \<and> f r < f best \<and>
               (\<forall>y\<in>set pre. f r < f y) \<and> (\<forall>y\<in>set post. f r \<le> f y)"
      using d
    proof
      assume a: "r = x \<and> (\<forall>y\<in>set xs. f x \<le> f y)"
      have "x # xs = [] @ r # xs" using a by simp
      moreover have "f r < f best" using a True by simp
      moreover have "\<forall>y\<in>set []. f r < f y" by simp
      moreover have "\<forall>y\<in>set xs. f r \<le> f y" using a by simp
      ultimately show ?thesis by blast
    next
      assume "\<exists>pre post. xs = pre @ r # post \<and> f r < f x \<and>
               (\<forall>y\<in>set pre. f r < f y) \<and> (\<forall>y\<in>set post. f r \<le> f y)"
      then obtain pre post where p: "xs = pre @ r # post" "f r < f x"
        "\<forall>y\<in>set pre. f r < f y" "\<forall>y\<in>set post. f r \<le> f y" by blast
      have "x # xs = (x # pre) @ r # post" using p(1) by simp
      moreover have "f r < f best" using p(2) True by simp
      moreover have "\<forall>y\<in>set (x # pre). f r < f y" using p(2,3) by simp
      ultimately show ?thesis using p(4) by blast
    qed
    with step show ?thesis by blast
  next
    case False
    from Cons.IH [OF rest, of best] obtain r where
      r: "min_loop key best (f best) xs = Inr r" and
      d: "(r = best \<and> (\<forall>y\<in>set xs. f best \<le> f y)) \<or>
          (\<exists>pre post. xs = pre @ r # post \<and> f r < f best \<and>
               (\<forall>y\<in>set pre. f r < f y) \<and> (\<forall>y\<in>set post. f r \<le> f y))" by blast
    have step: "min_loop key best (f best) (x # xs) = Inr r"
      using r kx False by simp
    from d show ?thesis
    proof
      assume a: "r = best \<and> (\<forall>y\<in>set xs. f best \<le> f y)"
      then have "r = best \<and> (\<forall>y\<in>set (x # xs). f best \<le> f y)" using False by simp
      with step show ?thesis by blast
    next
      assume "\<exists>pre post. xs = pre @ r # post \<and> f r < f best \<and>
               (\<forall>y\<in>set pre. f r < f y) \<and> (\<forall>y\<in>set post. f r \<le> f y)"
      then obtain pre post where p: "xs = pre @ r # post" "f r < f best"
        "\<forall>y\<in>set pre. f r < f y" "\<forall>y\<in>set post. f r \<le> f y" by blast
      have "x # xs = (x # pre) @ r # post" using p(1) by simp
      moreover have "\<forall>y\<in>set (x # pre). f r < f y" using p(2,3) False by simp
      ultimately have "\<exists>pre post. x # xs = pre @ r # post \<and> f r < f best \<and>
               (\<forall>y\<in>set pre. f r < f y) \<and> (\<forall>y\<in>set post. f r \<le> f y)"
        using p(2,4) by blast
      with step show ?thesis by blast
    qed
  qed
qed

lemma py_min_first:
  assumes "xs \<noteq> []" "\<forall>x\<in>set xs. key x = Inr (f x)"
  shows "\<exists>r pre post. py_min key xs = Inr r \<and> xs = pre @ r # post \<and>
           (\<forall>y\<in>set pre. f r < f y) \<and> (\<forall>y\<in>set post. f r \<le> f y)"
proof -
  from assms(1) obtain x rest where xs: "xs = x # rest" by (cases xs) auto
  have kx: "key x = Inr (f x)" and rest: "\<forall>y\<in>set rest. key y = Inr (f y)"
    using assms(2) xs by auto
  from min_loop_first [OF rest, of x] obtain r where
    r: "min_loop key x (f x) rest = Inr r" and
    d: "(r = x \<and> (\<forall>y\<in>set rest. f x \<le> f y)) \<or>
        (\<exists>pre post. rest = pre @ r # post \<and> f r < f x \<and>
           (\<forall>y\<in>set pre. f r < f y) \<and> (\<forall>y\<in>set post. f r \<le> f y))" by blast
  have pm: "py_min key xs = Inr r" using xs kx r by (simp add: py_min_def)
  from d show ?thesis
  proof
    assume a: "r = x \<and> (\<forall>y\<in>set rest. f x \<le> f y)"
    have "xs = [] @ r # rest" using xs a by simp
    moreover have "\<forall>y\<in>set []. f r < f y" by simp
    moreover have "\<forall>y\<in>set rest. f r \<le> f y" using a by simp
    ultimately show ?thesis using pm by blast
  next
    assume "\<exists>pre post. rest = pre @ r # post \<and> f r < f x \<and>
           (\<forall>y\<in>set pre. f r < f y) \<and> (\<forall>y\<in>set post. f r \<le> f y)"
    then obtain pre post where p: "rest = pre @ r # post" "f r < f x"
        "\<forall>y\<in>set pre. f r < f y" "\<forall>y\<in>set post. f r \<le> f y" by blast
    have "xs = (x # pre) @ r # post" using xs p(1) by simp
    moreover have "\<forall>y\<in>set (x # pre). f r < f y" using p(2,3) by simp
    ultimately show ?thesis using pm p(4) by blast
  qed
qed

lemma max_loop_returns:
  "\<forall>x\<in>set xs. key x = Inr (f x) \<Longrightarrow> \<exists>r. max_loop key best kb xs = Inr r"
  by (induction xs arbitrary: best kb) simp_all

lemma py_min_returns: "xs \<noteq> [] \<Longrightarrow> \<exists>r. py_min Inr xs = Inr r"
  using py_min_first [of xs Inr "\<lambda>x. x"] by blast

lemma py_max_returns: "xs \<noteq> [] \<Longrightarrow> \<exists>r. py_max Inr xs = Inr r"
  using max_loop_returns [of "tl xs" Inr "\<lambda>x. x" "hd xs" "hd xs"]
  by (cases xs) (simp_all add: py_max_def)

lemma comprehension_map:
  "\<forall>x\<in>set xs. f x = Inr (g x) \<Longrightarrow> comprehension f xs = Inr (map g xs)"
  by (induction xs) simp_all

subsection \<open>The record of one day\<close>

text \<open>On a well-formed sample no subscript of the aggregation raises.\<close>

lemma well_formed_item_dt: "well_formed s \<Longrightarrow> item_dt s = Inr (the (dt s))"
  by (auto simp: well_formed_def item_dt_def getitem_def split: option.splits)

lemma well_formed_item_main_temp:
  "well_formed s \<Longrightarrow> item_main_temp s = Inr (the (main_temp (the (main s))))"
  by (auto simp: well_formed_def item_main_temp_def getitem_def split: option.splits)

lemma well_formed_item_main_humidity:
  "well_formed s \<Longrightarrow> item_main_humidity s = Inr (the (main_humidity (the (main s))))"
  by (auto simp: well_formed_def item_main_humidity_def getitem_def split: option.splits)

lemma well_formed_item_description_title:
  "well_formed s \<Longrightarrow>
   item_description_title s = Inr (title (the (weather_description (hd (the (weather s))))))"
  by (auto simp: well_formed_def item_description_title_def getitem_def first_item_def
      split: option.splits list.splits)

lemma well_formed_noon_distance:
  "well_formed s \<Longrightarrow> noon_distance tz s = Inr \<bar>sample_hour tz s - 12\<bar>"
  by (simp add: noon_distance_def well_formed_item_dt sample_hour_def)

lemma aggregate_daily_forecast_well_formed:
  assumes "g \<noteq> []" and "\<forall>s\<in>set g. well_formed s"
  shows "\<exists>rep pre post tmin tmax.
           g = pre @ rep # post \<and>
           (\<forall>y\<in>set pre. \<bar>sample_hour tz rep - 12\<bar> < \<bar>sample_hour tz y - 12\<bar>) \<and>
           (\<forall>y\<in>set post. \<bar>sample_hour tz rep - 12\<bar> \<le> \<bar>sample_hour tz y - 12\<bar>) \<and>
           aggregate_daily_forecast tz g =
             Inr (Some \<lparr>description = title (the (weather_description (hd (the (weather rep))))),
                        humidity = the (main_humidity (the (main rep))),
                        wind_speed = item_wind_speed rep,
                        date = sample_date tz (hd g),
                        temperature_min = tmin,
                        temperature_max = tmax,
                        precipitation_probability = get_default (pop rep) 0 * 100\<rparr>)"
proof -
  have keys: "\<forall>s\<in>set g. noon_distance tz s = Inr \<bar>sample_hour tz s - 12\<bar>"
    using assms(2) by (simp add: well_formed_noon_distance)
  from py_min_first [OF assms(1) keys] obtain rep pre post where
    rep: "py_min (noon_distance tz) g = Inr rep" and
    g: "g = pre @ rep # post" and
    before: "\<forall>y\<in>set pre. \<bar>sample_hour tz rep - 12\<bar> < \<bar>sample_hour tz y - 12\<bar>" and
    after: "\<forall>y\<in>set post. \<bar>sample_hour tz rep - 12\<bar> \<le> \<bar>sample_hour tz y - 12\<bar>"
    by blast
  have "rep \<in> set g" using g by simp
  then have wf_rep: "well_formed rep" using assms(2) by blast
  have "hd g \<in> set g" using assms(1) by simp
  then have wf_hd: "well_formed (hd g)" using assms(2) by blast
  let ?temps = "map (\<lambda>s. the (main_temp (the (main s)))) g"
  have temps: "comprehension item_main_temp g = Inr ?temps"
    using assms(2) by (intro comprehension_map) (simp add: well_formed_item_main_temp)
  have "?temps \<noteq> []" using assms(1) by simp
  then obtain tmin tmax where tmin: "py_min Inr ?temps = Inr tmin"
    and tmax: "py_max Inr ?temps = Inr tmax"
    using py_min_returns [of ?temps] py_max_returns [of ?temps] by blast
  have first: "first_item g = Inr (hd g)"
    using assms(1) by (cases g) (simp_all add: first_item_def)
  have "aggregate_daily_forecast tz g =
      Inr (Some \<lparr>description = title (the (weather_description (hd (the (weather rep))))),
                 humidity = the (main_humidity (the (main rep))),
                 wind_speed = item_wind_speed rep,
                 date = sample_date tz (hd g),
                 temperature_min = tmin,
                 temperature_max = tmax,
                 precipitation_probability = get_default (pop rep) 0 * 100\<rparr>)"
    unfolding aggregate_daily_forecast_def
    by (simp only: assms(1) if_False temps rep first tmin tmax and_then_Inr
        well_formed_item_dt [OF wf_hd] well_formed_item_description_title [OF wf_rep]
        well_formed_item_main_humidity [OF wf_rep] sample_date_def)
  with g before after show ?thesis by blast
qed

text \<open>Claim C2. For a non-empty group of well-formed samples the aggregation returns a
  record, and there is a position \<open>i\<close> in the group whose sample is the representative:
  its distance \<open>|hour - 12|\<close> in local time is least in the group, every sample before
  it is strictly farther from noon (so among equally near samples the first in the
  original order is taken), and the description, humidity, wind speed and
  precipitation probability of the record are read from that sample. For samples at
  the hours 6, 12 and 18 the record is the one of the hour-12 sample; for the hours 9
  and 15 it is the one of the hour-9 sample.\<close>

theorem noon_representative:
  assumes "daily_data \<noteq> []" and "\<forall>s\<in>set daily_data. well_formed s"
  shows "\<exists>r i. aggregate_daily_forecast tz daily_data = Inr (Some r) \<and>
           i < length daily_data \<and>
           (\<forall>j<length daily_data.
              \<bar>sample_hour tz (daily_data ! i) - 12\<bar> \<le> \<bar>sample_hour tz (daily_data ! j) - 12\<bar>) \<and>
           (\<forall>j<i. \<bar>sample_hour tz (daily_data ! i) - 12\<bar> < \<bar>sample_hour tz (daily_data ! j) - 12\<bar>) \<and>
           item_description_title (daily_data ! i) = Inr (description r) \<and>
           item_main_humidity (daily_data ! i) = Inr (humidity r) \<and>
           wind_speed r = item_wind_speed (daily_data ! i) \<and>
           precipitation_probability r = get_default (pop (daily_data ! i)) 0 * 100"
proof -
  from aggregate_daily_forecast_well_formed [OF assms, of tz]
  obtain rep pre post tmin tmax where
    g: "daily_data = pre @ rep # post" and
    before: "\<forall>y\<in>set pre. \<bar>sample_hour tz rep - 12\<bar> < \<bar>sample_hour tz y - 12\<bar>" and
    after: "\<forall>y\<in>set post. \<bar>sample_hour tz rep - 12\<bar> \<le> \<bar>sample_hour tz y - 12\<bar>" and
    agg: "aggregate_daily_forecast tz daily_data =
             Inr (Some \<lparr>description = title (the (weather_description (hd (the (weather rep))))),
                        humidity = the (main_humidity (the (main rep))),
                        wind_speed = item_wind_speed rep,
                        date = sample_date tz (hd daily_data),
                        temperature_min = tmin,
                        temperature_max = tmax,
                        precipitation_probability = get_default (pop rep) 0 * 100\<rparr>)"
    by blast
  let ?i = "length pre"
  let ?r = "\<lparr>description = title (the (weather_description (hd (the (weather rep))))),
                        humidity = the (main_humidity (the (main rep))),
                        wind_speed = item_wind_speed rep,
                        date = sample_date tz (hd daily_data),
                        temperature_min = tmin,
                        temperature_max = tmax,
                        precipitation_probability = get_default (pop rep) 0 * 100\<rparr>"
  have i: "?i < length daily_data" using g by simp
  have at: "daily_data ! ?i = rep" using g by simp
  have "rep \<in> set daily_data" using g by simp
  then have wf_rep: "well_formed rep" using assms(2) by blast
  have least: "\<forall>j<length daily_data.
      \<bar>sample_hour tz rep - 12\<bar> \<le> \<bar>sample_hour tz (daily_data ! j) - 12\<bar>"
  proof (intro allI impI)
    fix j assume "j < length daily_data"
    then have "daily_data ! j \<in> set daily_data" by simp
    then have "daily_data ! j \<in> set pre \<or> daily_data ! j = rep \<or> daily_data ! j \<in> set post"
      using g by auto
    then show "\<bar>sample_hour tz rep - 12\<bar> \<le> \<bar>sample_hour tz (daily_data ! j) - 12\<bar>"
      using before after by force
  qed
  have first: "\<forall>j<?i. \<bar>sample_hour tz rep - 12\<bar> < \<bar>sample_hour tz (daily_data ! j) - 12\<bar>"
  proof (intro allI impI)
    fix j assume j: "j < ?i"
    then have "daily_data ! j = pre ! j" using g by (simp add: nth_append)
    moreover have "pre ! j \<in> set pre" using j by simp
    ultimately show "\<bar>sample_hour tz rep - 12\<bar> < \<bar>sample_hour tz (daily_data ! j) - 12\<bar>"
      using before by simp
  qed
  have "aggregate_daily_forecast tz daily_data = Inr (Some ?r) \<and>
           ?i < length daily_data \<and>
           (\<forall>j<length daily_data.
              \<bar>sample_hour tz (daily_data ! ?i) - 12\<bar> \<le> \<bar>sample_hour tz (daily_data ! j) - 12\<bar>) \<and>
           (\<forall>j<?i. \<bar>sample_hour tz (daily_data ! ?i) - 12\<bar> < \<bar>sample_hour tz (daily_data ! j) - 12\<bar>) \<and>
           item_description_title (daily_data ! ?i) = Inr (description ?r) \<and>
           item_main_humidity (daily_data ! ?i) = Inr (humidity ?r) \<and>
           wind_speed ?r = item_wind_speed (daily_data ! ?i) \<and>
           precipitation_probability ?r = get_default (pop (daily_data ! ?i)) 0 * 100"
    using agg i least first
    by (simp add: at well_formed_item_description_title [OF wf_rep]
        well_formed_item_main_humidity [OF wf_rep])
  then show ?thesis by blast
qed

lemma title_mist: "title ''mist'' = ''Mist''"
  by code_simp

lemma example_day_hours:
  "map (sample_hour utc) example_day = [6, 12, 18]"
  "map (sample_hour utc) example_tie = [9, 15]"
  by (simp_all add: example_day_def example_tie_def sample_hour_def sample_at_def utc_def
      fromtimestamp_hour_def local_seconds_def)

lemma example_day_well_formed:
  "\<forall>s\<in>set example_day. well_formed s"
  "\<forall>s\<in>set example_tie. well_formed s"
  by (simp_all add: example_day_def example_tie_def well_formed_def sample_at_def)

lemma example_day_aggregate:
  "aggregate_daily_forecast utc example_day =
     Inr (Some \<lparr>description = ''Clear Sky'', humidity = 50, wind_speed = 0, date = 0,
                temperature_min = 10, temperature_max = 20, precipitation_probability = 0\<rparr>)"
  by (simp add: example_day_def sample_at_def item_dt_def utc_def getitem_def
      fromtimestamp_date_def fromtimestamp_hour_def local_seconds_def
      aggregate_daily_forecast_def item_main_temp_def py_min_def py_max_def noon_distance_def
      first_item_def item_description_title_def item_main_humidity_def item_wind_speed_def
      get_default_def title_example)

lemma example_tie_aggregate:
  "aggregate_daily_forecast utc example_tie =
     Inr (Some \<lparr>description = ''Mist'', humidity = 50, wind_speed = 0, date = 0,
                temperature_min = 10, temperature_max = 12, precipitation_probability = 0\<rparr>)"
  by (simp add: example_tie_def sample_at_def item_dt_def utc_def getitem_def
      fromtimestamp_date_def fromtimestamp_hour_def local_seconds_def
      aggregate_daily_forecast_def item_main_temp_def py_min_def py_max_def noon_distance_def
      first_item_def item_description_title_def item_main_humidity_def item_wind_speed_def
      get_default_def title_mist)

theorem noon_representative_witness:
  "example_day \<noteq> [] \<and> list_all well_formed example_day \<and>
   map (sample_hour utc) example_day = [6, 12, 18] \<and>
   aggregate_daily_forecast utc example_day =
     Inr (Some \<lparr>description = ''Clear Sky'', humidity = 50, wind_speed = 0, date = 0,
                temperature_min = 10, temperature_max = 20, precipitation_probability = 0\<rparr>) \<and>
   example_tie \<noteq> [] \<and> list_all well_formed example_tie \<and>
   map (sample_hour utc) example_tie = [9, 15] \<and>
   aggregate_daily_forecast utc example_tie =
     Inr (Some \<lparr>description = ''Mist'', humidity = 50, wind_speed = 0, date = 0,
                temperature_min = 10, temperature_max = 12, precipitation_probability = 0\<rparr>)"
proof -
  have ne: "example_day \<noteq> []" "example_tie \<noteq> []"
    by (simp_all add: example_day_def example_tie_def)
  note day = noon_representative [OF ne(1) example_day_well_formed(1), of utc]
  note tie = noon_representative [OF ne(2) example_day_well_formed(2), of utc]
  have "list_all well_formed example_day" "list_all well_formed example_tie"
    using example_day_well_formed by (simp_all add: list_all_iff)
  with day tie ne example_day_hours example_day_aggregate example_tie_aggregate
  show ?thesis by (intro conjI)
qed

subsection \<open>Runs of equal dates\<close>

lemma runs_hd: "runs f (x # xs) = g # gs \<Longrightarrow> hd g = x \<and> g \<noteq> []"
  by (auto split: list.splits if_splits)

lemma runs_not_Nil: "runs f (x # xs) \<noteq> []"
  by (simp split: list.split)

lemma runs_Nil_iff [simp]: "runs f xs = [] \<longleftrightarrow> xs = []"
  by (cases xs) (simp_all split: list.split)

lemma concat_runs: "concat (runs f xs) = xs"
  by (induction xs) (auto split: list.splits)

lemma filter_filter_le: "length (filter P (filter Q xs)) \<le> length (filter P xs)"
  by (induction xs) auto

lemma runs_nonempty: "g \<in> set (runs f xs) \<Longrightarrow> g \<noteq> []"
  by (induction xs arbitrary: g) (auto split: list.splits if_splits)

lemma runs_same_key: "g \<in> set (runs f xs) \<Longrightarrow> y \<in> set g \<Longrightarrow> f y = f (hd g)"
  by (induction xs arbitrary: g y) (auto split: list.splits if_splits)

lemma runs_groups:
  assumes "g \<in> set (runs f xs)"
  shows "g \<noteq> [] \<and> (\<forall>x\<in>set g. f x = f (hd g))"
proof (intro conjI ballI)
  show "g \<noteq> []" using assms by (rule runs_nonempty)
  show "f x = f (hd g)" if "x \<in> set g" for x using assms that by (rule runs_same_key)
qed

lemma runs_const: "xs \<noteq> [] \<Longrightarrow> \<forall>x\<in>set xs. f x = d \<Longrightarrow> runs f xs = [xs]"
proof (induction xs)
  case Nil
  then show ?case by simp
next
  case (Cons x xs)
  show ?case
  proof (cases "xs = []")
    case True
    then show ?thesis by simp
  next
    case False
    with Cons have "runs f xs = [xs]" by simp
    moreover have "f x = f (hd xs)" using Cons.prems(2) False by simp
    ultimately show ?thesis by simp
  qed
qed

lemma runs_append_diff:
  "dd \<noteq> [] \<Longrightarrow> \<forall>x\<in>set dd. f x = d \<Longrightarrow> f y \<noteq> d \<Longrightarrow>
   runs f (dd @ y # rest) = dd # runs f (y # rest)"
proof (induction dd)
  case Nil
  then show ?case by simp
next
  case (Cons a dd)
  obtain g gs where r: "runs f (y # rest) = g # gs"
    using runs_not_Nil [of f y rest] by (cases "runs f (y # rest)") simp_all
  then have hd: "hd g = y" using runs_hd by fastforce
  show ?case
  proof (cases "dd = []")
    case True
    have "f a \<noteq> f y" using Cons.prems by auto
    then have "runs f (a # y # rest) = [a] # g # gs"
      using r hd by (simp del: runs.simps add: runs.simps(2) [of f a])
    then show ?thesis using True r by simp
  next
    case False
    with Cons have ih: "runs f (dd @ y # rest) = dd # runs f (y # rest)" by simp
    have "f a = f (hd dd)" using Cons.prems(2) False by simp
    then have "runs f (a # dd @ y # rest) = (a # dd) # runs f (y # rest)"
      using ih by (simp del: runs.simps add: runs.simps(2) [of f a])
    then show ?thesis by simp
  qed
qed

lemma runs_first_key:
  "xs \<noteq> [] \<Longrightarrow> runs f xs = g # gs \<Longrightarrow> f (hd g) = f (hd xs)"
  using runs_hd [of f "hd xs" "tl xs" g gs] by (cases xs) simp_all

lemma runs_sorted:
  fixes f :: "'a \<Rightarrow> 'k::linorder"
  shows "sorted (map f xs) \<Longrightarrow> sorted_wrt (<) (map (\<lambda>g. f (hd g)) (runs f xs))"
proof (induction xs)
  case Nil
  then show ?case by simp
next
  case step: (Cons x xs)
  then have ih: "sorted_wrt (<) (map (\<lambda>g. f (hd g)) (runs f xs))" by simp
  show ?case
  proof (cases "runs f xs")
    case Nil
    then show ?thesis by simp
  next
    case groups: (Cons g gs)
    then have ne: "xs \<noteq> []" by auto
    then have key: "f (hd g) = f (hd xs)" using groups by (rule runs_first_key)
    have le: "f x \<le> f (hd xs)" using step.prems ne by (cases xs) simp_all
    show ?thesis
    proof (cases "f x = f (hd g)")
      case True
      then show ?thesis using ih groups by simp
    next
      case False
      then have less: "f x < f (hd g)" using le key by simp
      have "\<forall>k\<in>set (map (\<lambda>g. f (hd g)) gs). f (hd g) < k"
        using ih groups by simp
      then have "\<forall>k\<in>set (map (\<lambda>g. f (hd g)) gs). f x < k"
        using less by force
      then show ?thesis using ih groups False less by simp
    qed
  qed
qed

lemma runs_keys: "set (map (\<lambda>g. f (hd g)) (runs f xs)) = f ` set xs"
proof (intro equalityI subsetI)
  fix k assume "k \<in> set (map (\<lambda>g. f (hd g)) (runs f xs))"
  then obtain g where g: "g \<in> set (runs f xs)" "k = f (hd g)" by auto
  then have "g \<noteq> []" using runs_groups by fastforce
  then have "hd g \<in> set g" by simp
  then have "hd g \<in> set (concat (runs f xs))" using g(1) by auto
  then show "k \<in> f ` set xs" using g(2) by (simp add: concat_runs)
next
  fix k assume "k \<in> f ` set xs"
  then obtain x where "x \<in> set xs" "k = f x" by auto
  then have "x \<in> set (concat (runs f xs))" by (simp add: concat_runs)
  then obtain g where g: "g \<in> set (runs f xs)" "x \<in> set g" by auto
  then have "f x = f (hd g)" using runs_groups by fastforce
  then show "k \<in> set (map (\<lambda>g. f (hd g)) (runs f xs))" using g(1) \<open>k = f x\<close> by auto
qed

lemma runs_length:
  fixes f :: "'a \<Rightarrow> 'k::linorder"
  assumes "sorted (map f xs)"
  shows "length (runs f xs) = card (f ` set xs)"
proof -
  have "distinct (map (\<lambda>g. f (hd g)) (runs f xs))"
    using runs_sorted [OF assms] strict_sorted_iff by blast
  then have "card (set (map (\<lambda>g. f (hd g)) (runs f xs))) = length (map (\<lambda>g. f (hd g)) (runs f xs))"
    by (rule distinct_card)
  then show ?thesis using runs_keys [of f xs] by simp
qed

lemma length_le_keys:
  assumes "\<forall>d. length (filter (\<lambda>s. f s = d) xs) \<le> m"
  shows "length xs \<le> m * card (f ` set xs)"
  using assms
proof (induction "card (f ` set xs)" arbitrary: xs)
  case 0
  then have "xs = []" by simp
  then show ?case by simp
next
  case (Suc n)
  then have "xs \<noteq> []" by auto
  define d where "d = f (hd xs)"
  define ys where "ys = filter (\<lambda>s. f s \<noteq> d) xs"
  have "d \<in> f ` set xs" using \<open>xs \<noteq> []\<close> by (simp add: d_def)
  moreover have keys: "f ` set ys = f ` set xs - {d}" by (auto simp: ys_def)
  ultimately have "card (f ` set ys) = n" using Suc.hyps(2) by simp
  moreover have "\<forall>e. length (filter (\<lambda>s. f s = e) ys) \<le> m"
  proof
    fix e
    have "length (filter (\<lambda>s. f s = e) ys) \<le> length (filter (\<lambda>s. f s = e) xs)"
      unfolding ys_def by (rule filter_filter_le)
    moreover have "length (filter (\<lambda>s. f s = e) xs) \<le> m" using Suc.prems by simp
    ultimately show "length (filter (\<lambda>s. f s = e) ys) \<le> m" by linarith
  qed
  ultimately have "length ys \<le> m * n" using Suc.hyps(1) [of ys] by simp
  moreover have "length xs = length (filter (\<lambda>s. f s = d) xs) + length ys"
    using sum_length_filter_compl [of "\<lambda>s. f s = d" xs] by (simp add: ys_def)
  moreover have "length (filter (\<lambda>s. f s = d) xs) \<le> m" using Suc.prems by simp
  ultimately have "length xs \<le> m + m * n" by linarith
  then show ?case using Suc.hyps(2) [symmetric] by simp
qed

subsection \<open>The grouping loop\<close>

text \<open>The loop of \<open>_format_forecast_data\<close> followed by the flush of the last day's data
  produces one record for every run of equal dates, in order. The invariant of the
  loop: \<open>daily_data\<close> is empty exactly before the first item, and otherwise holds
  samples of the date \<open>current_date\<close>.\<close>

lemma aggregate_daily_forecast_date:
  assumes "g \<noteq> []" and "\<forall>s\<in>set g. well_formed s"
  shows "\<exists>r. aggregate_daily_forecast tz g = Inr (Some r) \<and> date r = sample_date tz (hd g)"
  using aggregate_daily_forecast_well_formed [OF assms, of tz]
  by (elim exE conjE) simp

lemma forecast_loop_step:
  assumes "well_formed x"
  shows "forecast_loop tz (x # items) (fs, cd, dd) =
     (if cd \<noteq> Some (sample_date tz x) then
        (if dd \<noteq> [] then
           and_then (aggregate_daily_forecast tz dd) (\<lambda>r.
             forecast_loop tz items (fs @ [r], Some (sample_date tz x), [x]))
         else forecast_loop tz items (fs, Some (sample_date tz x), [x]))
      else forecast_loop tz items (fs, cd, dd @ [x]))"
  by (simp add: well_formed_item_dt [OF assms] Let_def sample_date_def)

lemma forecast_loop_runs:
  assumes "\<forall>s\<in>set items. well_formed s" and "\<forall>s\<in>set dd. well_formed s"
    and "(dd = [] \<and> cd = None) \<or>
         (dd \<noteq> [] \<and> (\<exists>d. cd = Some d \<and> (\<forall>x\<in>set dd. sample_date tz x = d)))"
  shows "\<exists>fs' cd' dd' rs.
           forecast_loop tz items (fs, cd, dd) = Inr (fs', cd', dd') \<and>
           (if dd' \<noteq> [] then
              and_then (aggregate_daily_forecast tz dd') (\<lambda>r. Inr (fs' @ [r]))
            else Inr fs') = Inr (fs @ map Some rs) \<and>
           list_all2 (\<lambda>g r. aggregate_daily_forecast tz g = Inr (Some r))
             (runs (sample_date tz) (dd @ items)) rs"
  using assms
proof (induction items arbitrary: fs cd dd)
  case Nil
  show ?case
  proof (cases "dd = []")
    case True
    have "forecast_loop tz [] (fs, cd, dd) = Inr (fs, cd, dd) \<and>
           (if dd \<noteq> [] then
              and_then (aggregate_daily_forecast tz dd) (\<lambda>r. Inr (fs @ [r]))
            else Inr fs) = Inr (fs @ map Some []) \<and>
           list_all2 (\<lambda>g r. aggregate_daily_forecast tz g = Inr (Some r))
             (runs (sample_date tz) (dd @ [])) []"
      using True by simp
    then show ?thesis by blast
  next
    case False
    with Nil.prems(3) obtain d where d: "\<forall>x\<in>set dd. sample_date tz x = d" by blast
    have runs: "runs (sample_date tz) dd = [dd]" using False d by (rule runs_const)
    from aggregate_daily_forecast_date [OF False Nil.prems(2), of tz] obtain r where
      r: "aggregate_daily_forecast tz dd = Inr (Some r)" by blast
    have "forecast_loop tz [] (fs, cd, dd) = Inr (fs, cd, dd) \<and>
           (if dd \<noteq> [] then
              and_then (aggregate_daily_forecast tz dd) (\<lambda>r. Inr (fs @ [r]))
            else Inr fs) = Inr (fs @ map Some [r]) \<and>
           list_all2 (\<lambda>g r. aggregate_daily_forecast tz g = Inr (Some r))
             (runs (sample_date tz) (dd @ [])) [r]"
      using False r runs by simp
    then show ?thesis by blast
  qed
next
  case (Cons x items)
  have wfx: "well_formed x" and wfi: "\<forall>s\<in>set items. well_formed s"
    using Cons.prems(1) by simp_all
  note step = forecast_loop_step [OF wfx, of tz items fs cd dd]
  have single: "([x] = [] \<and> Some (sample_date tz x) = None) \<or>
         ([x] \<noteq> [] \<and> (\<exists>d. Some (sample_date tz x) = Some d \<and>
            (\<forall>y\<in>set [x]. sample_date tz y = d)))"
    by simp
  have wf1: "\<forall>s\<in>set [x]. well_formed s" using wfx by simp
  show ?case
  proof (cases "cd = Some (sample_date tz x)")
    case True
    with Cons.prems(3) have ne: "dd \<noteq> []"
      and same: "\<forall>y\<in>set dd. sample_date tz y = sample_date tz x" by auto
    have wf': "\<forall>s\<in>set (dd @ [x]). well_formed s" using Cons.prems(2) wfx by simp
    have inv: "(dd @ [x] = [] \<and> cd = None) \<or>
         (dd @ [x] \<noteq> [] \<and> (\<exists>d. cd = Some d \<and> (\<forall>y\<in>set (dd @ [x]). sample_date tz y = d)))"
      using True same by simp
    from Cons.IH [OF wfi wf' inv, of fs] obtain fs' cd' dd' rs where
      "forecast_loop tz items (fs, cd, dd @ [x]) = Inr (fs', cd', dd')"
      "(if dd' \<noteq> [] then
              and_then (aggregate_daily_forecast tz dd') (\<lambda>r. Inr (fs' @ [r]))
            else Inr fs') = Inr (fs @ map Some rs)"
      "list_all2 (\<lambda>g r. aggregate_daily_forecast tz g = Inr (Some r))
             (runs (sample_date tz) ((dd @ [x]) @ items)) rs"
      by blast
    then have "forecast_loop tz (x # items) (fs, cd, dd) = Inr (fs', cd', dd') \<and>
      (if dd' \<noteq> [] then
              and_then (aggregate_daily_forecast tz dd') (\<lambda>r. Inr (fs' @ [r]))
            else Inr fs') = Inr (fs @ map Some rs) \<and>
      list_all2 (\<lambda>g r. aggregate_daily_forecast tz g = Inr (Some r))
             (runs (sample_date tz) (dd @ x # items)) rs"
      using step True by simp
    then show ?thesis by blast
  next
    case False
    show ?thesis
    proof (cases "dd = []")
      case True
      from Cons.IH [OF wfi wf1 single, of fs] obtain fs' cd' dd' rs where
        "forecast_loop tz items (fs, Some (sample_date tz x), [x]) = Inr (fs', cd', dd')"
        "(if dd' \<noteq> [] then
              and_then (aggregate_daily_forecast tz dd') (\<lambda>r. Inr (fs' @ [r]))
            else Inr fs') = Inr (fs @ map Some rs)"
        "list_all2 (\<lambda>g r. aggregate_daily_forecast tz g = Inr (Some r))
             (runs (sample_date tz) ([x] @ items)) rs"
        by blast
      then have "forecast_loop tz (x # items) (fs, cd, dd) = Inr (fs', cd', dd') \<and>
        (if dd' \<noteq> [] then
              and_then (aggregate_daily_forecast tz dd') (\<lambda>r. Inr (fs' @ [r]))
            else Inr fs') = Inr (fs @ map Some rs) \<and>
        list_all2 (\<lambda>g r. aggregate_daily_forecast tz g = Inr (Some r))
             (runs (sample_date tz) (dd @ x # items)) rs"
        using step False True by (simp del: runs.simps)
      then show ?thesis by blast
    next
      case nonempty: False
      with Cons.prems(3) obtain d where d: "cd = Some d" "\<forall>y\<in>set dd. sample_date tz y = d"
        by blast
      have diff: "sample_date tz x \<noteq> d" using False d(1) by simp
      from aggregate_daily_forecast_date [OF nonempty Cons.prems(2), of tz] obtain r where
        r: "aggregate_daily_forecast tz dd = Inr (Some r)" by blast
      from Cons.IH [OF wfi wf1 single, of "fs @ [Some r]"] obtain fs' cd' dd' rs where
        loop: "forecast_loop tz items (fs @ [Some r], Some (sample_date tz x), [x]) =
           Inr (fs', cd', dd')" and
        flush: "(if dd' \<noteq> [] then
              and_then (aggregate_daily_forecast tz dd') (\<lambda>r. Inr (fs' @ [r]))
            else Inr fs') = Inr ((fs @ [Some r]) @ map Some rs)" and
        all2: "list_all2 (\<lambda>g r. aggregate_daily_forecast tz g = Inr (Some r))
             (runs (sample_date tz) ([x] @ items)) rs"
        by blast
      have runs: "runs (sample_date tz) (dd @ x # items) = dd # runs (sample_date tz) (x # items)"
        using nonempty d(2) diff by (rule runs_append_diff)
      have a: "forecast_loop tz (x # items) (fs, cd, dd) = Inr (fs', cd', dd')"
        using step False nonempty r loop by simp
      have b: "(if dd' \<noteq> [] then
              and_then (aggregate_daily_forecast tz dd') (\<lambda>r. Inr (fs' @ [r]))
            else Inr fs') = Inr (fs @ map Some (r # rs))"
        using flush by simp
      have c: "list_all2 (\<lambda>g r. aggregate_daily_forecast tz g = Inr (Some r))
             (runs (sample_date tz) (dd @ x # items)) (r # rs)"
        unfolding runs using r all2 by (simp del: runs.simps)
      from a b c show ?thesis by blast
    qed
  qed
qed

end
